theory Spec2Isabelle
  imports Main
begin

section \<open>JavaScript values\<close>

text \<open>
  The program is untyped JavaScript working on JSON data. A value is one of the JSON
  shapes or \<open>undefined\<close>. Numbers are the integers the program handles (ids, counts,
  millisecond timestamps); strings are lists of bytes (UTF-8 text). An object is the list
  of its properties in insertion order, without repeated names; a lookup takes the first
  entry of a name.
\<close>

datatype jsval =
    JUndefined
  | JNull
  | JBool bool
  | JNum int
  | JStr string
  | JArr "jsval list"
  | JObj "(string \<times> jsval) list"

text \<open>
  Exceptions. \<open>Error m\<close> is \<open>new Error(m)\<close> thrown by the program itself; the others
  are raised by the platform: a \<open>TypeError\<close> (reading a property of \<open>undefined\<close> or
  \<open>null\<close>, calling something that is not a function), a \<open>SyntaxError\<close> of
  \<open>JSON.parse\<close> or \<open>response.json()\<close>, a rejected \<open>fetch\<close>, and the
  \<open>QuotaExceededError\<close> of \<open>localStorage.setItem\<close>.
\<close>

datatype js_error =
    Error string
  | TypeError
  | SyntaxError
  | NetworkError
  | QuotaExceededError

definition bindE :: "js_error + 'a \<Rightarrow> ('a \<Rightarrow> js_error + 'b) \<Rightarrow> js_error + 'b" where
  "bindE m f = (case m of Inl e \<Rightarrow> Inl e | Inr v \<Rightarrow> f v)"

fun truthy :: "jsval \<Rightarrow> bool" where
  "truthy JUndefined = False"
| "truthy JNull = False"
| "truthy (JBool b) = b"
| "truthy (JNum n) = (n \<noteq> 0)"
| "truthy (JStr s) = (s \<noteq> [])"
| "truthy (JArr xs) = True"
| "truthy (JObj fs) = True"

fun nullish :: "jsval \<Rightarrow> bool" where
  "nullish JUndefined = True"
| "nullish JNull = True"
| "nullish v = False"

text \<open>\<open>a || b\<close> for an operand \<open>b\<close> whose evaluation cannot throw.\<close>

definition js_or :: "jsval \<Rightarrow> jsval \<Rightarrow> jsval" where
  "js_or a b = (if truthy a then a else b)"

text \<open>
  \<open>v.k\<close> for a data property \<open>k\<close>: a \<open>TypeError\<close> on \<open>undefined\<close> and \<open>null\<close>,
  the property of an object (\<open>undefined\<close> when it has none of that name), the \<open>length\<close>
  of an array or string, and \<open>undefined\<close> otherwise.
\<close>

fun js_get :: "jsval \<Rightarrow> string \<Rightarrow> js_error + jsval" where
  "js_get JUndefined k = Inl TypeError"
| "js_get JNull k = Inl TypeError"
| "js_get (JObj fs) k = Inr (case map_of fs k of Some v \<Rightarrow> v | None \<Rightarrow> JUndefined)"
| "js_get (JArr xs) k = Inr (if k = ''length'' then JNum (int (length xs)) else JUndefined)"
| "js_get (JStr s) k = Inr (if k = ''length'' then JNum (int (length s)) else JUndefined)"
| "js_get v k = Inr JUndefined"

text \<open>\<open>v?.k\<close>: \<open>undefined\<close> on \<open>undefined\<close> and \<open>null\<close>, never an exception.\<close>

definition js_opt_get :: "jsval \<Rightarrow> string \<Rightarrow> jsval" where
  "js_opt_get v k = (case js_get v k of Inl e \<Rightarrow> JUndefined | Inr x \<Rightarrow> x)"

subsection \<open>Strings\<close>

text \<open>
  A string is the list of the bytes of its UTF-8 text. White space is what ECMAScript
  calls \<open>WhiteSpace\<close> and \<open>LineTerminator\<close>: the characters that \<open>trim\<close> removes,
  that the regular expression class \<open>\s\<close> matches and that \<open>parseInt\<close> skips. They are
  U+0009 to U+000D, U+0020, U+00A0, U+1680, U+2000 to U+200A, U+2028, U+2029, U+202F,
  U+205F, U+3000 and U+FEFF, here in UTF-8. No one of them is the beginning of another,
  and a byte inside a character (\<open>0x80\<close> to \<open>0xBF\<close>) begins none of them, so that
  a string read byte by byte shows its white space characters and nothing else as such.
\<close>

fun startsWith :: "string \<Rightarrow> string \<Rightarrow> bool" where
  "startsWith s [] = True"
| "startsWith [] (p # ps) = False"
| "startsWith (c # cs) (p # ps) = (c = p \<and> startsWith cs ps)"

fun str_includes :: "string \<Rightarrow> string \<Rightarrow> bool" where
  "str_includes [] sub = (sub = [])"
| "str_includes (c # cs) sub = (startsWith (c # cs) sub \<or> str_includes cs sub)"

definition WHITE_SPACE :: "string list" where
  "WHITE_SPACE =
     [[CHR 0x09], [CHR 0x0A], [CHR 0x0B], [CHR 0x0C], [CHR 0x0D], [CHR 0x20],
      [CHR 0xC2, CHR 0xA0],
      [CHR 0xE1, CHR 0x9A, CHR 0x80],
      [CHR 0xE2, CHR 0x80, CHR 0x80], [CHR 0xE2, CHR 0x80, CHR 0x81],
      [CHR 0xE2, CHR 0x80, CHR 0x82], [CHR 0xE2, CHR 0x80, CHR 0x83],
      [CHR 0xE2, CHR 0x80, CHR 0x84], [CHR 0xE2, CHR 0x80, CHR 0x85],
      [CHR 0xE2, CHR 0x80, CHR 0x86], [CHR 0xE2, CHR 0x80, CHR 0x87],
      [CHR 0xE2, CHR 0x80, CHR 0x88], [CHR 0xE2, CHR 0x80, CHR 0x89],
      [CHR 0xE2, CHR 0x80, CHR 0x8A],
      [CHR 0xE2, CHR 0x80, CHR 0xA8], [CHR 0xE2, CHR 0x80, CHR 0xA9],
      [CHR 0xE2, CHR 0x80, CHR 0xAF],
      [CHR 0xE2, CHR 0x81, CHR 0x9F],
      [CHR 0xE3, CHR 0x80, CHR 0x80],
      [CHR 0xEF, CHR 0xBB, CHR 0xBF]]"

text \<open>
  The number of bytes of the white space character at the head of a string, 0 when the
  string does not begin with one.
\<close>

definition space_width :: "string \<Rightarrow> nat" where
  "space_width s = (case find (startsWith s) WHITE_SPACE of Some u \<Rightarrow> length u | None \<Rightarrow> 0)"

text \<open>
  \<open>trimStart\<close> drops the white space characters at the head. \<open>trimEnd\<close> cuts the
  string at the first place after which nothing but white space follows.
\<close>

fun trimStart :: "string \<Rightarrow> string" where
  "trimStart [] = []"
| "trimStart (c # cs) =
     (if space_width (c # cs) = 0 then c # cs else trimStart (drop (space_width (c # cs) - 1) cs))"

fun only_spaces :: "string \<Rightarrow> bool" where
  "only_spaces [] = True"
| "only_spaces (c # cs) =
     (space_width (c # cs) \<noteq> 0 \<and> only_spaces (drop (space_width (c # cs) - 1) cs))"

fun trimEnd :: "string \<Rightarrow> string" where
  "trimEnd [] = []"
| "trimEnd (c # cs) = (if only_spaces (c # cs) then [] else c # trimEnd cs)"

definition trim :: "string \<Rightarrow> string" where
  "trim s = trimEnd (trimStart s)"

fun join :: "string \<Rightarrow> string list \<Rightarrow> string" where
  "join sep [] = []"
| "join sep [x] = x"
| "join sep (x # y # ys) = x @ sep @ join sep (y # ys)"

text \<open>
  Decimal notation of an integer, as \<open>String(n)\<close> and template literals print it (for a
  number below \<open>10^21\<close> in size). \<open>digit_char\<close> is only applied to a digit below 10.
\<close>

definition digit_char :: "nat \<Rightarrow> char" where
  "digit_char d = ''0123456789'' ! d"

function digits :: "nat \<Rightarrow> string" where
  "digits n = (if n < 10 then [digit_char n] else digits (n div 10) @ [digit_char (n mod 10)])"
  by pat_completeness auto
termination
  by (relation "measure id") auto

declare digits.simps [simp del]

definition show_int :: "int \<Rightarrow> string" where
  "show_int n = (if n < 0 then CHR ''-'' # digits (nat (- n)) else digits (nat n))"

text \<open>
  \<open>String(v)\<close>: what a template literal and \<open>Array.prototype.join\<close> print. \<open>join\<close>
  prints \<open>undefined\<close> and \<open>null\<close> elements as the empty string.
\<close>

fun js_toString :: "jsval \<Rightarrow> string" where
  "js_toString JUndefined = ''undefined''"
| "js_toString JNull = ''null''"
| "js_toString (JBool b) = (if b then ''true'' else ''false'')"
| "js_toString (JNum n) = show_int n"
| "js_toString (JStr s) = s"
| "js_toString (JArr xs) = join '','' (map (\<lambda>x. if nullish x then [] else js_toString x) xs)"
| "js_toString (JObj fs) = ''[object Object]''"

definition js_join :: "jsval list \<Rightarrow> string \<Rightarrow> string" where
  "js_join xs sep = join sep (map (\<lambda>x. if nullish x then [] else js_toString x) xs)"

section \<open>Normalizers\<close>

definition PLACEHOLDER_IMG :: jsval where
  "PLACEHOLDER_IMG = JStr ''MushroomApp.png''"

fun mapE :: "('a \<Rightarrow> js_error + 'b) \<Rightarrow> 'a list \<Rightarrow> js_error + 'b list" where
  "mapE f [] = Inr []"
| "mapE f (x # xs) = bindE (f x) (\<lambda>y. bindE (mapE f xs) (\<lambda>ys. Inr (y # ys)))"

fun filterE :: "('a \<Rightarrow> js_error + bool) \<Rightarrow> 'a list \<Rightarrow> js_error + 'a list" where
  "filterE p [] = Inr []"
| "filterE p (x # xs) =
     bindE (p x) (\<lambda>keep. bindE (filterE p xs) (\<lambda>ys. Inr (if keep then x # ys else ys)))"

subsection \<open>Wikipedia link\<close>

text \<open>
  \<open>s.replace(/\s+/g, '_')\<close>: every maximal run of white space becomes one underscore.
  \<open>in_run\<close> tells that the character before was white space, whose underscore is
  already written.
\<close>

fun replace_runs :: "bool \<Rightarrow> string \<Rightarrow> string" where
  "replace_runs in_run [] = []"
| "replace_runs in_run (c # cs) =
     (if space_width (c # cs) = 0 then c # replace_runs False cs
      else (if in_run then [] else ''_'') @ replace_runs True (drop (space_width (c # cs) - 1) cs))"

definition replace_ws :: "string \<Rightarrow> string" where
  "replace_ws s = replace_runs False s"

text \<open>
  \<open>encodeURIComponent\<close>: the unreserved characters stay, every other byte of the UTF-8
  text is written \<open>%XX\<close>. \<open>hex_digit\<close> is only applied to the two halves of a byte,
  both below 16.
\<close>

definition unreserved :: "char \<Rightarrow> bool" where
  "unreserved c =
     (c \<in> set (''ABCDEFGHIJKLMNOPQRSTUVWXYZabcdefghijklmnopqrstuvwxyz0123456789-_.!~*()'' @ [CHR 0x27]))"

definition hex_digit :: "nat \<Rightarrow> char" where
  "hex_digit d = ''0123456789ABCDEF'' ! d"

definition encode_char :: "char \<Rightarrow> string" where
  "encode_char c =
     (if unreserved c then [c]
      else [CHR ''%'', hex_digit (of_char c div 16), hex_digit (of_char c mod 16)])"

definition encodeURIComponent :: "string \<Rightarrow> string" where
  "encodeURIComponent s = concat (map encode_char s)"

text \<open>
  \<open>getWikipediaUrl(name)\<close>: \<open>null\<close> for a falsy name; \<open>name.replace\<close> is a
  \<open>TypeError\<close> on a truthy name that is not a string.
\<close>

definition getWikipediaUrl :: "jsval \<Rightarrow> js_error + jsval" where
  "getWikipediaUrl name =
     (if \<not> truthy name then Inr JNull
      else case name of
             JStr s \<Rightarrow> Inr (JStr (''https://en.wikipedia.org/wiki/'' @ encodeURIComponent (replace_ws s)))
           | _ \<Rightarrow> Inl TypeError)"

subsection \<open>formatPlantData\<close>

text \<open>
  \<open>v?.join?.(', ')\<close>: the joined elements of an array; a \<open>TypeError\<close> on an object
  whose own \<open>join\<close> property holds a value (it is not a function); \<open>undefined\<close>
  otherwise.
\<close>

definition opt_join :: "jsval \<Rightarrow> js_error + jsval" where
  "opt_join v =
     (case v of
        JArr xs \<Rightarrow> Inr (JStr (js_join xs '', ''))
      | JObj fs \<Rightarrow> (case map_of fs ''join'' of
                      None \<Rightarrow> Inr JUndefined
                    | Some j \<Rightarrow> if nullish j then Inr JUndefined else Inl TypeError)
      | _ \<Rightarrow> Inr JUndefined)"

text \<open>\<open>Array.isArray(v) ? v.join(', ') : (v || 'N/A')\<close>\<close>

definition join_or_NA :: "jsval \<Rightarrow> jsval" where
  "join_or_NA v = (case v of JArr xs \<Rightarrow> JStr (js_join xs '', '') | _ \<Rightarrow> js_or v (JStr ''N/A''))"

text \<open>\<open>{ value: v?.value || 'N/A', unit: v?.unit || '' }\<close>\<close>

definition value_unit :: "jsval \<Rightarrow> jsval" where
  "value_unit v =
     JObj [(''value'', js_or (js_opt_get v ''value'') (JStr ''N/A'')),
           (''unit'', js_or (js_opt_get v ''unit'') (JStr []))]"

text \<open>
  The first property read, \<open>data.common_name\<close>, is a \<open>TypeError\<close> on \<open>undefined\<close>
  and \<open>null\<close>; past it every \<open>data.k\<close> is the read \<open>js_opt_get data k\<close>.
\<close>

definition formatPlantData :: "jsval \<Rightarrow> js_error + jsval" where
  "formatPlantData data =
     bindE (js_get data ''common_name'') (\<lambda>common_name.
     let d = js_opt_get data;
         commonName = js_or common_name (JStr ''Unknown Plant'')
     in
     bindE (opt_join (d ''scientific_name'')) (\<lambda>joined.
     let scientificName = js_or (js_or joined (d ''scientific_name'')) (JStr ''N/A'') in
     bindE (getWikipediaUrl commonName) (\<lambda>w1.
     bindE (if truthy w1 then Inr w1 else getWikipediaUrl scientificName) (\<lambda>wikipediaUrl.
     Inr (JObj
       [(''id'', d ''id''),
        (''source'', JStr ''perenual''),
        (''common_name'', commonName),
        (''scientific_name'', scientificName),
        (''description'', js_or (d ''description'') (JStr ''No description available.'')),
        (''image_url'',
           js_or (js_or (js_opt_get (d ''default_image'') ''regular_url'')
                        (js_opt_get (d ''default_image'') ''original_url'')) PLACEHOLDER_IMG),
        (''wikipedia_url'', wikipediaUrl),
        (''cycle'', js_or (d ''cycle'') (JStr ''N/A'')),
        (''watering'', js_or (d ''watering'') (JStr ''N/A'')),
        (''sunlight'', join_or_NA (d ''sunlight'')),
        (''watering_period'', js_or (d ''watering_period'') (JStr ''N/A'')),
        (''watering_general_benchmark'', value_unit (d ''watering_general_benchmark'')),
        (''depth_water_requirement'', value_unit (d ''depth_water_requirement'')),
        (''volume_water_requirement'', value_unit (d ''volume_water_requirement'')),
        (''dimension'', js_or (d ''dimension'') (JStr ''N/A'')),
        (''type'', js_or (d ''type'') (JStr ''N/A'')),
        (''growth_rate'', js_or (d ''growth_rate'') (JStr ''N/A'')),
        (''maintenance'', js_or (d ''maintenance'') (JStr ''N/A'')),
        (''care_level'', js_or (d ''care_level'') (JStr ''N/A'')),
        (''flowers'', js_or (d ''flowers'') (JBool False)),
        (''flowering_season'', js_or (d ''flowering_season'') (JStr ''N/A'')),
        (''flower_color'', js_or (d ''flower_color'') (JStr ''N/A'')),
        (''edible_fruit'', js_or (d ''edible_fruit'') (JBool False)),
        (''edible_leaf'', js_or (d ''edible_leaf'') (JBool False)),
        (''poisonous_to_humans'', js_or (d ''poisonous_to_humans'') (JNum 0)),
        (''poisonous_to_pets'', js_or (d ''poisonous_to_pets'') (JNum 0)),
        (''medicinal'', js_or (d ''medicinal'') (JBool False)),
        (''invasive'', js_or (d ''invasive'') (JBool False)),
        (''tropical'', js_or (d ''tropical'') (JBool False)),
        (''indoor'', js_or (d ''indoor'') (JBool False)),
        (''cuisine'', js_or (d ''cuisine'') (JBool False)),
        (''hardiness'',
           JObj [(''min'', js_or (js_opt_get (d ''hardiness'') ''min'') (JStr ''N/A'')),
                 (''max'', js_or (js_opt_get (d ''hardiness'') ''max'') (JStr ''N/A''))]),
        (''hardiness_location'',
           JObj [(''full_url'', js_or (js_opt_get (d ''hardiness_location'') ''full_url'') JNull),
                 (''full_iframe'', js_or (js_opt_get (d ''hardiness_location'') ''full_iframe'') JNull)]),
        (''soil'', join_or_NA (d ''soil'')),
        (''propagation'', join_or_NA (d ''propagation'')),
        (''attracts'', join_or_NA (d ''attracts'')),
        (''origin'', join_or_NA (d ''origin'')),
        (''other_name'',
           (case d ''other_name'' of
              JArr xs \<Rightarrow> JStr (js_join (take 3 xs) '', '')
            | v \<Rightarrow> js_or v (JStr ''N/A'')))])))))"

subsection \<open>formatINaturalistData\<close>

text \<open>
  \<open>v.length > 0\<close> and \<open>v[0]\<close> on a truthy \<open>taxon_photos\<close>. An array or string has
  its length and first element; an object its own properties \<open>length\<close> and \<open>0\<close>; a
  number or boolean has neither. In \<open>x > 0\<close> a number or boolean compares by value and
  \<open>undefined\<close>, \<open>null\<close> and objects are not greater; a \<open>length\<close> property
  holding a string or an array, which JavaScript first reads as a number, is taken as not
  greater.
\<close>

fun js_gt_zero :: "jsval \<Rightarrow> bool" where
  "js_gt_zero (JNum n) = (0 < n)"
| "js_gt_zero (JBool b) = b"
| "js_gt_zero v = False"

fun length_positive :: "jsval \<Rightarrow> bool" where
  "length_positive (JArr xs) = (xs \<noteq> [])"
| "length_positive (JStr s) = (s \<noteq> [])"
| "length_positive (JObj fs) = js_gt_zero (js_opt_get (JObj fs) ''length'')"
| "length_positive v = False"

fun js_first :: "jsval \<Rightarrow> jsval" where
  "js_first (JArr xs) = (case xs of [] \<Rightarrow> JUndefined | x # _ \<Rightarrow> x)"
| "js_first (JStr s) = (case s of [] \<Rightarrow> JUndefined | c # _ \<Rightarrow> JStr [c])"
| "js_first (JObj fs) = js_opt_get (JObj fs) ''0''"
| "js_first v = JUndefined"

definition inat_image_url :: "jsval \<Rightarrow> js_error + jsval" where
  "inat_image_url taxon =
     bindE (js_get taxon ''default_photo'') (\<lambda>default_photo.
       if truthy default_photo then
         Inr (js_or (js_or (js_or (js_or (js_or
                (js_opt_get default_photo ''medium_url'')
                (js_opt_get default_photo ''original_url''))
                (js_opt_get default_photo ''large_url''))
                (js_opt_get default_photo ''small_url''))
                (js_opt_get default_photo ''url''))
                PLACEHOLDER_IMG)
       else
         bindE (js_get taxon ''taxon_photos'') (\<lambda>taxon_photos.
           if truthy taxon_photos \<and> length_positive taxon_photos then
             bindE (js_get (js_first taxon_photos) ''photo'') (\<lambda>photo.
             bindE (js_get photo ''medium_url'') (\<lambda>medium_url.
               Inr (js_or (js_or (js_or (js_or medium_url
                      (js_opt_get photo ''original_url''))
                      (js_opt_get photo ''large_url''))
                      (js_opt_get photo ''url''))
                      PLACEHOLDER_IMG)))
           else Inr PLACEHOLDER_IMG))"

text \<open>The six rank variables, all \<open>'N/A'\<close> at first.\<close>

record taxonomy =
  kingdom :: jsval
  phylum :: jsval
  class_rank :: jsval
  order_rank :: jsval
  family :: jsval
  genus :: jsval

definition no_taxonomy :: taxonomy where
  "no_taxonomy =
     \<lparr>kingdom = JStr ''N/A'', phylum = JStr ''N/A'', class_rank = JStr ''N/A'',
      order_rank = JStr ''N/A'', family = JStr ''N/A'', genus = JStr ''N/A''\<rparr>"

text \<open>
  The chain \<open>if (x.rank === 'kingdom') kingdom = x.name; else if ...\<close>, for an ancestor
  and for the taxon itself.
\<close>

definition assign_rank :: "jsval \<Rightarrow> taxonomy \<Rightarrow> js_error + taxonomy" where
  "assign_rank x t =
     bindE (js_get x ''rank'') (\<lambda>rank.
     bindE (js_get x ''name'') (\<lambda>name.
       Inr (if rank = JStr ''kingdom'' then t\<lparr>kingdom := name\<rparr>
            else if rank = JStr ''phylum'' then t\<lparr>phylum := name\<rparr>
            else if rank = JStr ''class'' then t\<lparr>class_rank := name\<rparr>
            else if rank = JStr ''order'' then t\<lparr>order_rank := name\<rparr>
            else if rank = JStr ''family'' then t\<lparr>family := name\<rparr>
            else if rank = JStr ''genus'' then t\<lparr>genus := name\<rparr>
            else t)))"

fun assign_ancestors :: "jsval list \<Rightarrow> taxonomy \<Rightarrow> js_error + taxonomy" where
  "assign_ancestors [] t = Inr t"
| "assign_ancestors (ancestor # rest) t = bindE (assign_rank ancestor t) (assign_ancestors rest)"

text \<open>\<open>taxon.ancestors.forEach\<close> exists on arrays only.\<close>

definition inat_taxonomy :: "jsval \<Rightarrow> js_error + taxonomy" where
  "inat_taxonomy taxon =
     bindE (js_get taxon ''ancestors'') (\<lambda>ancestors.
     bindE (if truthy ancestors then
              (case ancestors of JArr xs \<Rightarrow> assign_ancestors xs no_taxonomy | _ \<Rightarrow> Inl TypeError)
            else Inr no_taxonomy)
           (assign_rank taxon))"

definition formatINaturalistData :: "jsval \<Rightarrow> js_error + jsval" where
  "formatINaturalistData taxon =
     bindE (inat_image_url taxon) (\<lambda>imageUrl.
     bindE (inat_taxonomy taxon) (\<lambda>t.
     let d = js_opt_get taxon;
         commonName = js_or (d ''preferred_common_name'') (d ''name'');
         scientificName = d ''name''
     in
     bindE (if truthy (d ''wikipedia_url'') then Inr (d ''wikipedia_url'')
            else bindE (getWikipediaUrl commonName) (\<lambda>w1.
                   if truthy w1 then Inr w1 else getWikipediaUrl scientificName))
       (\<lambda>wikipediaUrl.
     Inr (JObj
       [(''id'', JStr (''inat_'' @ js_toString (d ''id''))),
        (''source'', JStr ''inaturalist''),
        (''common_name'', commonName),
        (''scientific_name'', scientificName),
        (''description'', js_or (js_or (d ''wikipedia_summary'') (d ''observations'')) JNull),
        (''image_url'', imageUrl),
        (''rank'', js_or (d ''rank'') (JStr ''N/A'')),
        (''iconic_taxon_name'', js_or (d ''iconic_taxon_name'') (JStr ''N/A'')),
        (''observations_count'', js_or (d ''observations_count'') (JNum 0)),
        (''wikipedia_url'', wikipediaUrl),
        (''is_active'', js_or (d ''is_active'') (JBool False)),
        (''endemic'', js_or (d ''endemic'') (JBool False)),
        (''threatened'', js_or (d ''threatened'') (JBool False)),
        (''introduced'', js_or (d ''introduced'') (JBool False)),
        (''native'', js_or (d ''native'') (JBool False)),
        (''taxon_id'', d ''id''),
        (''kingdom'', kingdom t),
        (''phylum'', phylum t),
        (''class'', class_rank t),
        (''order'', order_rank t),
        (''family'', family t),
        (''genus'', genus t)]))))"

subsection \<open>formatToxicShroomData\<close>

text \<open>
  \<open>data.img.includes(..)\<close> and \<open>data.img.startsWith(..)\<close> on a truthy \<open>img\<close>. A
  string has both methods. An array has \<open>includes\<close> only (is the text one of its
  elements), so the following \<open>startsWith\<close> is a \<open>TypeError\<close>; any other value has
  neither.
\<close>

definition toxic_image_url :: "jsval \<Rightarrow> js_error + jsval" where
  "toxic_image_url data =
     bindE (js_get data ''img'') (\<lambda>img.
       if truthy img then
         (case img of
            JStr s \<Rightarrow>
              Inr (if str_includes s ''commons.wikimedia.org'' then JStr s
                   else if startsWith s ''//'' then JStr (''https:'' @ s)
                   else if startsWith s ''http'' then JStr s
                   else PLACEHOLDER_IMG)
          | JArr xs \<Rightarrow>
              if JStr ''commons.wikimedia.org'' \<in> set xs then Inr (JArr xs) else Inl TypeError
          | _ \<Rightarrow> Inl TypeError)
       else Inr PLACEHOLDER_IMG)"

text \<open>The filter callback \<open>d => d && d.trim()\<close>, as the truth value \<open>filter\<close> takes.\<close>

definition nonblank :: "jsval \<Rightarrow> js_error + bool" where
  "nonblank d =
     (if truthy d then (case d of JStr s \<Rightarrow> Inr (trim s \<noteq> []) | _ \<Rightarrow> Inl TypeError)
      else Inr False)"

definition toxic_distribution :: "jsval \<Rightarrow> js_error + jsval" where
  "toxic_distribution data =
     bindE (js_get data ''distribution'') (\<lambda>distribution.
       case distribution of
         JArr xs \<Rightarrow>
           bindE (filterE nonblank xs) (\<lambda>filtered.
             Inr (if filtered \<noteq> [] then JStr (js_join filtered '', '') else JStr ''Unknown''))
       | v \<Rightarrow> Inr (if truthy v then v else JStr ''Unknown''))"

definition formatToxicShroomData :: "jsval \<Rightarrow> js_error + jsval" where
  "formatToxicShroomData data =
     bindE (toxic_image_url data) (\<lambda>imageUrl.
     bindE (toxic_distribution data) (\<lambda>distribution.
     let d = js_opt_get data;
         commonName = js_or (d ''commonname'') (d ''name'');
         scientificName = d ''name''
     in
     bindE (getWikipediaUrl commonName) (\<lambda>w1.
     bindE (if truthy w1 then Inr w1 else getWikipediaUrl scientificName) (\<lambda>wikipediaUrl.
     bindE (case d ''name'' of JStr s \<Rightarrow> Inr (replace_ws s) | _ \<Rightarrow> Inl TypeError) (\<lambda>slug.
     Inr (JObj
       [(''id'', JStr (''toxic_'' @ slug)),
        (''source'', JStr ''toxicshrooms''),
        (''common_name'', commonName),
        (''scientific_name'', scientificName),
        (''description'',
           JStr (''Toxic agent: '' @ js_toString (js_or (d ''agent'') (JStr ''Unknown'')) @
                 ''. Distribution: '' @ js_toString distribution)),
        (''image_url'', imageUrl),
        (''toxicity_type'', d ''type''),
        (''toxic_agent'', js_or (d ''agent'') (JStr ''Unknown toxins'')),
        (''distribution'', distribution),
        (''wikipedia_url'', wikipediaUrl)]))))))"

section \<open>The browser and the network\<close>

text \<open>
  What the platform answers to one \<open>fetch\<close>: the promise is rejected (the network is
  unreachable), or a response arrives with its status and its body, \<open>None\<close> for a body
  that is not JSON.
\<close>

datatype reply = Rejected | Response nat "jsval option"

definition response_ok :: "nat \<Rightarrow> bool" where
  "response_ok status = (200 \<le> status \<and> status \<le> 299)"

text \<open>The constant \<open>API_SOURCES\<close>: which sources are enabled.\<close>

record api_sources =
  perenual_enabled :: bool
  inaturalist_enabled :: bool
  toxicshrooms_enabled :: bool

text \<open>
  The state the program runs in. \<open>clock\<close> is \<open>Date.now()\<close> in milliseconds.
  \<open>network url n\<close> is the latency and the reply of the fetch of \<open>url\<close> that is issued
  after \<open>n\<close> earlier fetches; \<open>fetch_log\<close> holds the time and URL of every fetch issued
  so far. \<open>quota_exceeded k v\<close> tells whether \<open>localStorage.setItem(k, v)\<close> throws.
  \<open>JSON_parse\<close> (\<open>None\<close> for a \<open>SyntaxError\<close>), \<open>JSON_stringify\<close> and
  \<open>toLowerCase\<close> (\<open>String.prototype.toLowerCase\<close>, with the case mapping of
  Unicode) are the platform's, taken as they are: what is proved holds for every such
  function. \<open>PERENUAL_API_KEY\<close> comes from \<open>config.js\<close>.
\<close>

record world =
  clock :: int
  localStorage :: "string \<Rightarrow> string option"
  quota_exceeded :: "string \<Rightarrow> string \<Rightarrow> bool"
  lastApiCallTime :: int
  plantCache :: "jsval \<Rightarrow> jsval option"
  network :: "string \<Rightarrow> nat \<Rightarrow> nat \<times> reply"
  fetch_log :: "(int \<times> string) list"
  JSON_parse :: "string \<Rightarrow> jsval option"
  JSON_stringify :: "jsval \<Rightarrow> string"
  toLowerCase :: "string \<Rightarrow> string"
  PERENUAL_API_KEY :: string
  API_SOURCES :: api_sources

definition fetch :: "string \<Rightarrow> world \<Rightarrow> reply \<times> world" where
  "fetch url w =
     (let (latency, r) = network w url (length (fetch_log w)) in
      (r, w\<lparr>fetch_log := fetch_log w @ [(clock w, url)], clock := clock w + int latency\<rparr>))"

text \<open>\<open>await new Promise(resolve => setTimeout(resolve, ms))\<close>\<close>

definition sleep :: "int \<Rightarrow> world \<Rightarrow> world" where
  "sleep ms w = w\<lparr>clock := clock w + ms\<rparr>"

definition setItem :: "string \<Rightarrow> string \<Rightarrow> world \<Rightarrow> js_error + world" where
  "setItem k v w =
     (if quota_exceeded w k v then Inl QuotaExceededError
      else Inr (w\<lparr>localStorage := (localStorage w)(k \<mapsto> v)\<rparr>))"

subsection \<open>parseInt\<close>

text \<open>
  \<open>parseInt(s)\<close> without a radix: leading whitespace, a sign, the prefix \<open>0x\<close> for
  base 16, then the longest run of digits; \<open>None\<close> is \<open>NaN\<close>.
\<close>

definition digit_of :: "nat \<Rightarrow> char \<Rightarrow> nat option" where
  "digit_of radix c =
     (if radix = 16 then
        map_of (zip ''0123456789abcdefABCDEF''
                    [0, 1, 2, 3, 4, 5, 6, 7, 8, 9, 10, 11, 12, 13, 14, 15, 10, 11, 12, 13, 14, 15]) c
      else map_of (zip ''0123456789'' [0, 1, 2, 3, 4, 5, 6, 7, 8, 9]) c)"

definition digits_value :: "nat \<Rightarrow> string \<Rightarrow> nat" where
  "digits_value radix s =
     foldl (\<lambda>acc c. acc * radix + (case digit_of radix c of Some d \<Rightarrow> d | None \<Rightarrow> 0)) 0 s"

definition parse_digits :: "nat \<Rightarrow> string \<Rightarrow> int option" where
  "parse_digits radix s =
     (let ds = takeWhile (\<lambda>c. digit_of radix c \<noteq> None) s in
      if ds = [] then None else Some (int (digits_value radix ds)))"

definition parseInt :: "string \<Rightarrow> int option" where
  "parseInt str =
     (let s = trimStart str;
          negative = startsWith s ''-'';
          s1 = (if startsWith s ''-'' \<or> startsWith s ''+'' then drop 1 s else s);
          hex = (startsWith s1 ''0x'' \<or> startsWith s1 ''0X'');
          s2 = (if hex then drop 2 s1 else s1)
      in map_option (\<lambda>n. if negative then - n else n) (parse_digits (if hex then 16 else 10) s2))"

section \<open>getPlantDetails\<close>

definition API_BASE_URL :: string where
  "API_BASE_URL = ''https://perenual.com/api/v2''"

definition API_COOLDOWN_MS :: int where
  "API_COOLDOWN_MS = 2000"

text \<open>The message of the rate-limit error; its first four bytes are the sign U+1F6AB.\<close>

definition RATE_LIMIT_MESSAGE :: string where
  "RATE_LIMIT_MESSAGE =
     [CHR 0xF0, CHR 0x9F, CHR 0x9A, CHR 0xAB] @
     '' API rate limit exceeded. The free tier allows limited requests per day. '' @
     ''Please wait a few minutes and try again, or consider upgrading your API plan '' @
     ''at https://perenual.com''"

definition isNonPerenual :: "jsval \<Rightarrow> bool" where
  "isNonPerenual plantId =
     (case plantId of
        JStr s \<Rightarrow> startsWith s ''inat_'' \<or> startsWith s ''toxic_'' \<or>
                  startsWith s ''gbif_'' \<or> startsWith s ''trefle_''
      | _ \<Rightarrow> False)"

text \<open>
  The cache read at the head of \<open>getPlantDetails\<close>: both entries are there and not
  empty, and \<open>now - parseInt(cacheTime) < 86400000\<close>. A comparison with \<open>NaN\<close> is
  false.
\<close>

definition fresh_cached :: "world \<Rightarrow> string \<Rightarrow> string option" where
  "fresh_cached w cacheKey =
     (case (localStorage w cacheKey, localStorage w (cacheKey @ ''_time'')) of
        (Some cached, Some cacheTime) \<Rightarrow>
          if cached \<noteq> [] \<and> cacheTime \<noteq> [] then
            (case parseInt cacheTime of
               Some t \<Rightarrow> if clock w - t < 86400000 then Some cached else None
             | None \<Rightarrow> None)
          else None
      | _ \<Rightarrow> None)"

text \<open>
  The two \<open>setItem\<close> calls inside their own \<open>try\<close>: an exception of the first skips
  the second, and either is swallowed.
\<close>

definition cache_put :: "string \<Rightarrow> jsval \<Rightarrow> int \<Rightarrow> world \<Rightarrow> world" where
  "cache_put cacheKey formatted now w =
     (case setItem cacheKey (JSON_stringify w formatted) w of
        Inl e \<Rightarrow> w
      | Inr w1 \<Rightarrow> (case setItem (cacheKey @ ''_time'') (show_int now) w1 of
                     Inl e \<Rightarrow> w1
                   | Inr w2 \<Rightarrow> w2))"

text \<open>
  What \<open>getPlantDetails\<close> does with a 2xx body: \<open>data.id\<close> must be truthy (the read is
  a \<open>TypeError\<close> on \<open>null\<close>), then the record is formatted.
\<close>

definition parse_details :: "jsval \<Rightarrow> js_error + jsval" where
  "parse_details data =
     bindE (js_get data ''id'') (\<lambda>id.
       if \<not> truthy id then Inl (Error ''Invalid plant data: missing ID'')
       else formatPlantData data)"

definition details_url :: "world \<Rightarrow> jsval \<Rightarrow> string" where
  "details_url w plantId =
     API_BASE_URL @ ''/species/details/'' @ js_toString plantId @ ''?key='' @ PERENUAL_API_KEY w"

text \<open>
  The body of the \<open>try\<close> of one attempt. It ends by an exception (\<open>Inl\<close>), by
  \<open>return formatted\<close>, or by \<open>continue\<close> after the 500 ms pause. The timestamp
  written to the cache is the \<open>now\<close> read at the start of the attempt.
\<close>

datatype attempt_end = Returned jsval | Continued

definition attempt_try ::
  "world \<Rightarrow> jsval \<Rightarrow> string \<Rightarrow> int \<Rightarrow> int \<Rightarrow> (js_error + attempt_end) \<times> world"
where
  "attempt_try w plantId cacheKey retries attempt =
     (let now = clock w;
          timeSinceLastCall = now - lastApiCallTime w;
          w1 = (if timeSinceLastCall < API_COOLDOWN_MS
                then sleep (API_COOLDOWN_MS - timeSinceLastCall) w else w);
          w2 = w1\<lparr>lastApiCallTime := clock w1\<rparr>;
          (response, w3) = fetch (details_url w plantId) w2
      in case response of
           Rejected \<Rightarrow> (Inl NetworkError, w3)
         | Response status body \<Rightarrow>
             if \<not> response_ok status then
               (if status = 429 then (Inl (Error RATE_LIMIT_MESSAGE), w3)
                else if attempt = retries then
                  (Inl (Error (''Plant details failed: '' @ show_int (int status))), w3)
                else (Inr Continued, sleep 500 w3))
             else
               (case body of
                  None \<Rightarrow> (Inl SyntaxError, w3)
                | Some data \<Rightarrow>
                    (case parse_details data of
                       Inl e \<Rightarrow> (Inl e, w3)
                     | Inr formatted \<Rightarrow>
                         (Inr (Returned formatted), cache_put cacheKey formatted now w3))))"

text \<open>
  The loop \<open>for (attempt = 1; attempt <= retries; attempt++)\<close> with its \<open>catch\<close>: the
  exception of the last attempt is thrown again, any earlier one is followed by a 500 ms
  pause and the next attempt. A loop that ends without \<open>return\<close> yields \<open>undefined\<close>.
\<close>

function attempt_loop ::
  "world \<Rightarrow> jsval \<Rightarrow> string \<Rightarrow> int \<Rightarrow> int \<Rightarrow> (js_error + jsval) \<times> world"
where
  "attempt_loop w plantId cacheKey retries attempt =
     (if attempt \<le> retries then
        (case attempt_try w plantId cacheKey retries attempt of
           (Inr (Returned formatted), w') \<Rightarrow> (Inr formatted, w')
         | (Inr Continued, w') \<Rightarrow> attempt_loop w' plantId cacheKey retries (attempt + 1)
         | (Inl error, w') \<Rightarrow>
             if attempt = retries then (Inl error, w')
             else attempt_loop (sleep 500 w') plantId cacheKey retries (attempt + 1))
      else (Inr JUndefined, w))"
  by pat_completeness auto
termination
  by (relation "measure (\<lambda>(w, plantId, cacheKey, retries, attempt). nat (retries + 1 - attempt))") auto

declare attempt_loop.simps [simp del]

definition non_perenual_message :: "jsval \<Rightarrow> string" where
  "non_perenual_message plantId =
     ''Cannot fetch details for non-Perenual plant '' @ js_toString plantId @
     ''. Please use cached data or loadPlantDetails with source parameter.''"

definition getPlantDetails :: "world \<Rightarrow> jsval \<Rightarrow> int \<Rightarrow> (js_error + jsval) \<times> world" where
  "getPlantDetails w plantId retries =
     (let cacheKey = ''plant_'' @ js_toString plantId in
      case fresh_cached w cacheKey of
        Some cached \<Rightarrow>
          (case JSON_parse w cached of Some v \<Rightarrow> (Inr v, w) | None \<Rightarrow> (Inl SyntaxError, w))
      | None \<Rightarrow>
          if isNonPerenual plantId then
            (case plantCache w plantId of
               Some cachedPlant \<Rightarrow>
                 if truthy cachedPlant then (Inr cachedPlant, w)
                 else (Inl (Error (non_perenual_message plantId)), w)
             | None \<Rightarrow> (Inl (Error (non_perenual_message plantId)), w))
          else attempt_loop w plantId cacheKey retries 1)"

section \<open>getRandomPlant\<close>

definition CURATED_PLANT_IDS :: "int list" where
  "CURATED_PLANT_IDS =
     [1, 2, 3, 4, 5, 6, 7, 8, 9, 10,
      50, 100, 150, 200, 250, 300, 350, 400,
      500, 600, 700, 800, 900, 1000,
      1100, 1200, 1300, 1400, 1500, 1600,
      2000, 2500, 3000, 3500, 4000, 4500,
      5000, 5500, 6000, 6500, 7000, 7500,
      8000, 8500, 9000, 9500, 10000]"

text \<open>
  \<open>error.message.includes('rate limit')\<close>. The messages of the platform's own errors are
  taken not to hold that text.
\<close>

definition is_rate_limit :: "js_error \<Rightarrow> bool" where
  "is_rate_limit e = (case e of Error m \<Rightarrow> str_includes m ''rate limit'' | _ \<Rightarrow> False)"

definition NO_CACHED_PLANTS_MESSAGE :: string where
  "NO_CACHED_PLANTS_MESSAGE =
     [CHR 0xF0, CHR 0x9F, CHR 0x9A, CHR 0xAB] @
     '' API rate limit exceeded and no cached plants available. Please wait a few minutes '' @
     ''and try again, or try the '' @ [CHR 0xF0, CHR 0x9F, CHR 0x8D, CHR 0x84] @
     '' Random Mushroom button (uses different APIs).''"

text \<open>
  The fallback loop: the first curated id, in the order of the list, whose entry is there,
  not empty and parses; the age of the entry is not looked at.
\<close>

fun first_cached :: "world \<Rightarrow> int list \<Rightarrow> jsval option" where
  "first_cached w [] = None"
| "first_cached w (pid # ids) =
     (case localStorage w (''plant_'' @ show_int pid) of
        Some cached \<Rightarrow>
          if cached \<noteq> [] then
            (case JSON_parse w cached of
               Some plantData \<Rightarrow> Some plantData
             | None \<Rightarrow> first_cached w ids)
          else first_cached w ids
      | None \<Rightarrow> first_cached w ids)"

text \<open>
  \<open>r\<close> is the index \<open>Math.floor(Math.random() * n)\<close> drawn from the \<open>n\<close> candidate
  ids. Reading \<open>plantDetails.common_name\<close> for the log line is a \<open>TypeError\<close> on a
  result that is \<open>null\<close> or \<open>undefined\<close>, caught like any other.
\<close>

definition getRandomPlant :: "world \<Rightarrow> nat \<Rightarrow> (js_error + jsval) \<times> world" where
  "getRandomPlant w r =
     (let cachedIds = filter (\<lambda>id. fresh_cached w (''plant_'' @ show_int id) \<noteq> None) CURATED_PLANT_IDS;
          candidates = (if cachedIds \<noteq> [] then cachedIds else CURATED_PLANT_IDS);
          randomId = (if r < length candidates then JNum (candidates ! r) else JUndefined);
          (res, w') = getPlantDetails w randomId 1;
          outcome = (case res of
                       Inr plantDetails \<Rightarrow> if nullish plantDetails then Inl TypeError else Inr plantDetails
                     | Inl error \<Rightarrow> Inl error)
      in case outcome of
           Inr plantDetails \<Rightarrow> (Inr plantDetails, w')
         | Inl error \<Rightarrow>
             if is_rate_limit error then
               (case first_cached w' CURATED_PLANT_IDS of
                  Some plantData \<Rightarrow> (Inr plantData, w')
                | None \<Rightarrow> (Inl (Error NO_CACHED_PLANTS_MESSAGE), w'))
             else (Inl error, w'))"

section \<open>The source clients\<close>

subsection \<open>getPlantList\<close>

text \<open>
  \<open>if (filters.k !== undefined) url += `&k=${filters.k ? 1 : 0}`\<close> and
  \<open>if (filters.k) url += `&k=${filters.k}`\<close>
\<close>

definition flag_param :: "string \<Rightarrow> jsval \<Rightarrow> string" where
  "flag_param k v = (if v \<noteq> JUndefined then ''&'' @ k @ ''='' @ (if truthy v then ''1'' else ''0'') else [])"

definition value_param :: "string \<Rightarrow> jsval \<Rightarrow> string" where
  "value_param k v = (if truthy v then ''&'' @ k @ ''='' @ js_toString v else [])"

text \<open>The first read, \<open>filters.search\<close>, is a \<open>TypeError\<close> on \<open>null\<close>.\<close>

definition plant_list_url :: "world \<Rightarrow> int \<Rightarrow> jsval \<Rightarrow> js_error + string" where
  "plant_list_url w page filters =
     bindE (js_get filters ''search'') (\<lambda>search.
       let f = js_opt_get filters in
       Inr (API_BASE_URL @ ''/species-list?key='' @ PERENUAL_API_KEY w @
            ''&page='' @ show_int page @ ''&per_page=10'' @
            (if truthy search then ''&q='' @ encodeURIComponent (js_toString search) else []) @
            flag_param ''edible'' (f ''edible'') @
            flag_param ''poisonous'' (f ''poisonous'') @
            flag_param ''indoor'' (f ''indoor'') @
            value_param ''cycle'' (f ''cycle'') @
            value_param ''watering'' (f ''watering'') @
            value_param ''sunlight'' (f ''sunlight'') @
            value_param ''hardiness'' (f ''hardiness'')))"

text \<open>What \<open>getPlantList\<close> makes of the reply to its fetch.\<close>

definition plant_list_response :: "reply \<Rightarrow> js_error + jsval" where
  "plant_list_response response =
     (case response of
        Rejected \<Rightarrow> Inl NetworkError
      | Response status body \<Rightarrow>
          if \<not> response_ok status then
            (if status = 429 then Inl (Error RATE_LIMIT_MESSAGE)
             else Inl (Error (''Plant list request failed: '' @ show_int (int status))))
          else (case body of None \<Rightarrow> Inl SyntaxError | Some data \<Rightarrow> Inr data))"

text \<open>The default \<open>filters = {}\<close> stands in for \<open>undefined\<close>.\<close>

definition getPlantList :: "world \<Rightarrow> int \<Rightarrow> jsval \<Rightarrow> (js_error + jsval) \<times> world" where
  "getPlantList w page filters =
     (case plant_list_url w page (if filters = JUndefined then JObj [] else filters) of
        Inl e \<Rightarrow> (Inl e, w)
      | Inr url \<Rightarrow> (let (response, w') = fetch url w in (plant_list_response response, w')))"

subsection \<open>searchINaturalist\<close>

text \<open>\<open>taxonId\<close> is \<open>null\<close> or a number; \<open>if (taxonId)\<close> takes a number other than 0.\<close>

definition inat_url :: "string \<Rightarrow> int \<Rightarrow> int option \<Rightarrow> int \<Rightarrow> string" where
  "inat_url query page taxonId perPage =
     ''https://api.inaturalist.org/v1/taxa?q='' @ encodeURIComponent query @
     ''&page='' @ show_int page @ ''&per_page='' @ show_int (min perPage 200) @
     (case taxonId of Some t \<Rightarrow> if t \<noteq> 0 then ''&taxon_id='' @ show_int t else [] | None \<Rightarrow> []) @
     ''&order_by=observations_count&order=desc''"

definition no_taxa :: jsval where
  "no_taxa = JObj [(''results'', JArr []), (''total_results'', JNum 0)]"

text \<open>
  What \<open>searchINaturalist\<close> makes of the reply to its fetch. Every exception inside
  the \<open>try\<close> (a rejected fetch, a status that is not 2xx, a body that is not JSON, a
  body \<open>null\<close>) ends in the \<open>catch\<close>, which returns the empty result.
\<close>

definition inat_response :: "reply \<Rightarrow> jsval" where
  "inat_response response =
     (case response of
        Rejected \<Rightarrow> no_taxa
      | Response status body \<Rightarrow>
          if \<not> response_ok status then no_taxa
          else (case body of
                  None \<Rightarrow> no_taxa
                | Some data \<Rightarrow>
                    (case js_get data ''results'' of
                       Inl e \<Rightarrow> no_taxa
                     | Inr results \<Rightarrow>
                         JObj [(''results'', js_or results (JArr [])),
                               (''total_results'', js_or (js_opt_get data ''total_results'') (JNum 0))])))"

definition searchINaturalist ::
  "world \<Rightarrow> string \<Rightarrow> int \<Rightarrow> int option \<Rightarrow> int \<Rightarrow> jsval \<times> world"
where
  "searchINaturalist w query page taxonId perPage =
     (if \<not> inaturalist_enabled (API_SOURCES w) then (no_taxa, w)
      else (let (response, w') = fetch (inat_url query page taxonId perPage) w
            in (inat_response response, w')))"

subsection \<open>getToxicShrooms\<close>

definition toxic_url :: "string option \<Rightarrow> string" where
  "toxic_url type =
     ''https://toxicshrooms.vercel.app/api/mushrooms'' @
     (case type of Some t \<Rightarrow> if t \<noteq> [] then ''/'' @ t else [] | None \<Rightarrow> [])"

text \<open>What \<open>getToxicShrooms\<close> makes of the reply to its fetch; its \<open>catch\<close> returns \<open>[]\<close>.\<close>

definition toxic_response :: "reply \<Rightarrow> jsval" where
  "toxic_response response =
     (case response of
        Rejected \<Rightarrow> JArr []
      | Response status body \<Rightarrow>
          if \<not> response_ok status then JArr []
          else (case body of None \<Rightarrow> JArr [] | Some data \<Rightarrow> data))"

definition getToxicShrooms :: "world \<Rightarrow> string option \<Rightarrow> jsval \<times> world" where
  "getToxicShrooms w type =
     (if \<not> toxicshrooms_enabled (API_SOURCES w) then (JArr [], w)
      else (let (response, w') = fetch (toxic_url type) w in (toxic_response response, w')))"

section \<open>multiSourceSearch\<close>

text \<open>The object \<open>multiSourceSearch\<close> returns and \<open>combineSearchResults\<close> reads.\<close>

record search_results =
  perenual :: jsval
  inaturalist :: jsval
  toxicshrooms :: jsval
  total :: jsval

record search_options =
  includePerenual :: bool
  includeINaturalist :: bool
  includeFungi :: bool

text \<open>The defaults of the destructured \<open>options\<close>.\<close>

definition default_options :: search_options where
  "default_options = \<lparr>includePerenual = True, includeINaturalist = True, includeFungi = False\<rparr>"

text \<open>
  \<open>results.total += x\<close>, where \<open>results.total\<close> is a number and \<open>x\<close> is
  \<open>data.total || 0\<close>, so truthy or 0: numbers add, \<open>true\<close> counts 1, and a string,
  array or object is appended to the printed number. No other pair of operands reaches
  the addition.
\<close>

fun js_add :: "jsval \<Rightarrow> jsval \<Rightarrow> jsval" where
  "js_add (JNum a) (JNum b) = JNum (a + b)"
| "js_add (JNum a) (JBool b) = JNum (a + (if b then 1 else 0))"
| "js_add (JNum a) (JStr s) = JStr (show_int a @ s)"
| "js_add (JNum a) (JArr xs) = JStr (show_int a @ js_toString (JArr xs))"
| "js_add (JNum a) (JObj fs) = JStr (show_int a @ js_toString (JObj fs))"
| "js_add a b = a"

text \<open>
  The three \<open>.then(..).catch(..)\<close> handlers. Each writes its own field of \<open>results\<close>;
  an exception in a handler, or a rejected promise, is logged by the \<open>catch\<close> and leaves
  the field as it was.
\<close>

definition perenual_then :: "js_error + jsval \<Rightarrow> search_results \<Rightarrow> search_results" where
  "perenual_then res results =
     (case bindE res (\<lambda>data. bindE (js_get data ''data'') (\<lambda>items. Inr (data, items))) of
        Inl err \<Rightarrow> results
      | Inr (data, items) \<Rightarrow>
          results\<lparr>perenual := js_or items (JArr []),
                  total := js_add (total results) (js_or (js_opt_get data ''total'') (JNum 0))\<rparr>)"

text \<open>
  \<open>data.results?.map(taxon => formatINaturalistData(taxon)) || []\<close>: \<open>map\<close> exists on
  arrays only.
\<close>

definition inat_then :: "jsval \<Rightarrow> search_results \<Rightarrow> search_results" where
  "inat_then data results =
     (case bindE (js_get data ''results'') (\<lambda>taxa.
             if nullish taxa then Inr (JArr [])
             else case taxa of
                    JArr xs \<Rightarrow> bindE (mapE formatINaturalistData xs) (\<lambda>ys. Inr (JArr ys))
                  | _ \<Rightarrow> Inl TypeError) of
        Inl err \<Rightarrow> results
      | Inr formatted \<Rightarrow> results\<lparr>inaturalist := formatted\<rparr>)"

text \<open>\<open>v && v.toLowerCase().includes(q)\<close>, as a truth value.\<close>

definition name_matches :: "world \<Rightarrow> jsval \<Rightarrow> string \<Rightarrow> js_error + bool" where
  "name_matches w v q =
     (if truthy v then
        (case v of JStr s \<Rightarrow> Inr (str_includes (toLowerCase w s) q) | _ \<Rightarrow> Inl TypeError)
      else Inr False)"

definition shroom_matches :: "world \<Rightarrow> string \<Rightarrow> jsval \<Rightarrow> js_error + bool" where
  "shroom_matches w query shroom =
     bindE (js_get shroom ''name'') (\<lambda>name.
     bindE (name_matches w name (toLowerCase w query)) (\<lambda>by_name.
       if by_name then Inr True
       else bindE (js_get shroom ''commonname'') (\<lambda>commonname.
              name_matches w commonname (toLowerCase w query))))"

text \<open>\<open>filter\<close> and \<open>map\<close> exist on arrays only.\<close>

definition toxic_then :: "world \<Rightarrow> string \<Rightarrow> jsval \<Rightarrow> search_results \<Rightarrow> search_results" where
  "toxic_then w query data results =
     (case bindE (if query \<noteq> [] then
                    (case data of
                       JArr shrooms \<Rightarrow> bindE (filterE (shroom_matches w query) shrooms) (\<lambda>xs. Inr (JArr xs))
                     | _ \<Rightarrow> Inl TypeError)
                  else Inr data)
             (\<lambda>filtered. case filtered of
                            JArr xs \<Rightarrow> bindE (mapE formatToxicShroomData xs) (\<lambda>ys. Inr (JArr ys))
                          | _ \<Rightarrow> Inl TypeError) of
        Inl err \<Rightarrow> results
      | Inr formatted \<Rightarrow> results\<lparr>toxicshrooms := formatted\<rparr>)"

definition no_results :: search_results where
  "no_results = \<lparr>perenual = JArr [], inaturalist = JArr [], toxicshrooms = JArr [], total = JNum 0\<rparr>"

text \<open>
  The searches start one after the other without waiting, so each fetch is issued at the
  time of the call, \<open>t0\<close>; \<open>Promise.all\<close> resumes when the last of them has settled.
  Every promise carries its own \<open>catch\<close> and the whole body sits in a \<open>try\<close> whose
  \<open>catch\<close> returns \<open>results\<close> too: the function returns on every path.
\<close>

definition multiSourceSearch :: "world \<Rightarrow> string \<Rightarrow> search_options \<Rightarrow> search_results \<times> world" where
  "multiSourceSearch w query options =
     (let t0 = clock w;
          (results1, w1) =
            (if includePerenual options \<and> perenual_enabled (API_SOURCES w) then
               (let (res, w') = getPlantList w 1 (JObj [(''search'', JStr query)])
                in (perenual_then res no_results, w'))
             else (no_results, w));
          (results2, w2) =
            (if includeINaturalist options \<and> inaturalist_enabled (API_SOURCES w) then
               (let (data, w') = searchINaturalist (w1\<lparr>clock := t0\<rparr>) query 1
                                   (if includeFungi options then Some 47170 else None) 30
                in (inat_then data results1, w'))
             else (results1, w1\<lparr>clock := t0\<rparr>));
          (results3, w3) =
            (if includeFungi options \<and> toxicshrooms_enabled (API_SOURCES w) then
               (let (data, w') = getToxicShrooms (w2\<lparr>clock := t0\<rparr>) None
                in (toxic_then w query data results2, w'))
             else (results2, w2\<lparr>clock := t0\<rparr>))
      in (results3, w3\<lparr>clock := max (clock w1) (max (clock w2) (clock w3))\<rparr>))"

section \<open>combineSearchResults\<close>

text \<open>
  \<open>(item.scientific_name || item.common_name || '').toLowerCase().trim()\<close>. The method
  call is a \<open>TypeError\<close> on a truthy name that is not a string.
\<close>

definition lower_trim :: "world \<Rightarrow> jsval \<Rightarrow> js_error + string" where
  "lower_trim w v = (case v of JStr s \<Rightarrow> Inr (trim (toLowerCase w s)) | _ \<Rightarrow> Inl TypeError)"

definition item_key :: "world \<Rightarrow> jsval \<Rightarrow> js_error + string" where
  "item_key w item =
     bindE (js_get item ''scientific_name'') (\<lambda>sn.
       if truthy sn then lower_trim w sn
       else bindE (js_get item ''common_name'') (\<lambda>cn.
         lower_trim w (if truthy cn then cn else JStr [])))"

text \<open>
  \<open>{ ...item, source }\<close>: the own properties of \<open>item\<close> (the indexed elements of an
  array or string, nothing for the other primitives), with \<open>source\<close> set: replaced in
  place when \<open>item\<close> has it, appended otherwise.
\<close>

fun set_prop :: "(string \<times> jsval) list \<Rightarrow> string \<Rightarrow> jsval \<Rightarrow> (string \<times> jsval) list" where
  "set_prop [] k v = [(k, v)]"
| "set_prop ((k', v') # fs) k v = (if k' = k then (k, v) # fs else (k', v') # set_prop fs k v)"

fun own_props :: "jsval \<Rightarrow> (string \<times> jsval) list" where
  "own_props (JObj fs) = fs"
| "own_props (JArr xs) = zip (map (\<lambda>i. show_int (int i)) [0..<length xs]) xs"
| "own_props (JStr s) = zip (map (\<lambda>i. show_int (int i)) [0..<length s]) (map (\<lambda>c. JStr [c]) s)"
| "own_props v = []"

definition with_source :: "jsval \<Rightarrow> string \<Rightarrow> jsval" where
  "with_source item source = JObj (set_prop (own_props item) ''source'' (JStr source))"

text \<open>
  The callback of \<open>results.forEach\<close> in \<open>addResults\<close>, over the elements in order; the
  state is the array \<open>combined\<close> and the set \<open>seen\<close>.
\<close>

fun addItems ::
  "world \<Rightarrow> jsval list \<Rightarrow> string \<Rightarrow> jsval list \<times> string set \<Rightarrow>
   js_error + (jsval list \<times> string set)"
where
  "addItems w [] source st = Inr st"
| "addItems w (item # rest) source (combined, seen) =
     bindE (item_key w item) (\<lambda>key.
       if key \<noteq> [] \<and> key \<notin> seen then
         addItems w rest source (combined @ [with_source item source], insert key seen)
       else if key = [] then
         addItems w rest source (combined @ [with_source item source], seen)
       else addItems w rest source (combined, seen))"

text \<open>\<open>results.forEach\<close> exists on arrays only.\<close>

definition addResults ::
  "world \<Rightarrow> jsval \<Rightarrow> string \<Rightarrow> jsval list \<times> string set \<Rightarrow>
   js_error + (jsval list \<times> string set)"
where
  "addResults w results source st =
     (case results of JArr items \<Rightarrow> addItems w items source st | _ \<Rightarrow> Inl TypeError)"

text \<open>The state \<open>w\<close> is read for the platform's \<open>toLowerCase\<close> only.\<close>

definition combineSearchResults :: "world \<Rightarrow> search_results \<Rightarrow> js_error + jsval list" where
  "combineSearchResults w multiSourceResults =
     bindE (addResults w (perenual multiSourceResults) ''perenual'' ([], {})) (\<lambda>s1.
     bindE (addResults w (inaturalist multiSourceResults) ''inaturalist'' s1) (\<lambda>s2.
     bindE (addResults w (toxicshrooms multiSourceResults) ''toxicshrooms'' s2) (\<lambda>s3.
       Inr (fst s3))))"

section \<open>Notions the properties are stated with\<close>

subsection \<open>The merge as the specification words it\<close>

text \<open>
  A name is present when the field holds a non-empty string. The dedup key is the
  lower-cased, trimmed scientific name, or that of the common name when the scientific
  name is absent, or empty when both are.
\<close>

definition present_name :: "jsval \<Rightarrow> string \<Rightarrow> string option" where
  "present_name item k =
     (case item of
        JObj fs \<Rightarrow> (case map_of fs k of Some (JStr s) \<Rightarrow> (if s = [] then None else Some s) | _ \<Rightarrow> None)
      | _ \<Rightarrow> None)"

definition spec_dedup_key :: "world \<Rightarrow> jsval \<Rightarrow> string" where
  "spec_dedup_key w item =
     (case present_name item ''scientific_name'' of
        Some s \<Rightarrow> trim (toLowerCase w s)
      | None \<Rightarrow> (case present_name item ''common_name'' of
                   Some s \<Rightarrow> trim (toLowerCase w s)
                 | None \<Rightarrow> []))"

text \<open>
  The records of all sources in priority order, each with its source. The record at
  position \<open>i\<close> is kept when its key is empty or no earlier record has its key; the
  output is the kept records in that order, each carrying its source.
\<close>

definition by_priority :: "jsval list \<Rightarrow> jsval list \<Rightarrow> jsval list \<Rightarrow> (string \<times> jsval) list" where
  "by_priority ps ns ts =
     map (Pair ''perenual'') ps @ map (Pair ''inaturalist'') ns @ map (Pair ''toxicshrooms'') ts"

definition spec_kept :: "world \<Rightarrow> (string \<times> jsval) list \<Rightarrow> nat \<Rightarrow> bool" where
  "spec_kept w recs i =
     (spec_dedup_key w (snd (recs ! i)) = [] \<or>
      spec_dedup_key w (snd (recs ! i)) \<notin> set (map (\<lambda>r. spec_dedup_key w (snd r)) (take i recs)))"

definition spec_merge :: "world \<Rightarrow> (string \<times> jsval) list \<Rightarrow> jsval list" where
  "spec_merge w recs =
     map (\<lambda>i. with_source (snd (recs ! i)) (fst (recs ! i))) (filter (spec_kept w recs) [0..<length recs])"

text \<open>
  A record whose two name fields are each absent (missing, \<open>undefined\<close> or \<open>null\<close>) or
  a string.
\<close>

definition name_ok :: "jsval option \<Rightarrow> bool" where
  "name_ok v = (case v of None \<Rightarrow> True | Some JUndefined \<Rightarrow> True | Some JNull \<Rightarrow> True
                | Some (JStr s) \<Rightarrow> True | _ \<Rightarrow> False)"

definition named_record :: "jsval \<Rightarrow> bool" where
  "named_record item =
     (case item of
        JObj fs \<Rightarrow> name_ok (map_of fs ''scientific_name'') \<and> name_ok (map_of fs ''common_name'')
      | _ \<Rightarrow> False)"

text \<open>
  The same selection by recursion over the records, with the keys already taken: the form
  the refinement proof goes through.
\<close>

fun keep_new :: "world \<Rightarrow> string set \<Rightarrow> (string \<times> jsval) list \<Rightarrow> (string \<times> jsval) list" where
  "keep_new w seen [] = []"
| "keep_new w seen (r # rs) =
     (if spec_dedup_key w (snd r) = [] then r # keep_new w seen rs
      else if spec_dedup_key w (snd r) \<in> seen then keep_new w seen rs
      else r # keep_new w (insert (spec_dedup_key w (snd r)) seen) rs)"

definition keys_of :: "world \<Rightarrow> (string \<times> jsval) list \<Rightarrow> string set" where
  "keys_of w rs = {k \<in> set (map (\<lambda>r. spec_dedup_key w (snd r)) rs). k \<noteq> []}"

subsection \<open>Raw records and result fields\<close>

text \<open>The field \<open>k\<close> of a normalizer's result.\<close>

definition result_field :: "js_error + jsval \<Rightarrow> string \<Rightarrow> js_error + jsval" where
  "result_field r k = bindE r (\<lambda>v. js_get v k)"



subsection \<open>One attempt\<close>

text \<open>
  The time at which an attempt issues its fetch: at once when the cooldown has elapsed
  since \<open>lastApiCallTime\<close>, otherwise after waiting for the rest of it.
\<close>

definition call_time :: "world \<Rightarrow> int" where
  "call_time w =
     (if clock w - lastApiCallTime w < API_COOLDOWN_MS then lastApiCallTime w + API_COOLDOWN_MS
      else clock w)"

text \<open>
  The exception with which the last attempt ends on a reply, \<open>None\<close> for a reply that
  yields a record.
\<close>

definition reply_error :: "reply \<Rightarrow> js_error option" where
  "reply_error r =
     (case r of
        Rejected \<Rightarrow> Some NetworkError
      | Response status body \<Rightarrow>
          if \<not> response_ok status then
            Some (if status = 429 then Error RATE_LIMIT_MESSAGE
                  else Error (''Plant details failed: '' @ show_int (int status)))
          else (case body of
                  None \<Rightarrow> Some SyntaxError
                | Some data \<Rightarrow> (case parse_details data of Inl e \<Rightarrow> Some e | Inr v \<Rightarrow> None)))"

subsection \<open>Successive calls of getPlantDetails\<close>

text \<open>Times that are at least the cooldown apart, each from the one before.\<close>

fun spaced :: "int list \<Rightarrow> bool" where
  "spaced [] = True"
| "spaced [t] = True"
| "spaced (t # u # ts) = (t + API_COOLDOWN_MS \<le> u \<and> spaced (u # ts))"

text \<open>
  A sequence of calls of \<open>getPlantDetails\<close>, one after the other; each entry gives the
  idle time before the call, the id and the number of attempts.
\<close>

fun run_details :: "world \<Rightarrow> (nat \<times> jsval \<times> int) list \<Rightarrow> world" where
  "run_details w [] = w"
| "run_details w ((idle, plantId, retries) # calls) =
     run_details (snd (getPlantDetails (sleep (int idle) w) plantId retries)) calls"

text \<open>
  What the cooldown maintains: the logged fetch times are spaced, and none is later than
  \<open>lastApiCallTime\<close>.
\<close>

definition details_inv :: "world \<Rightarrow> bool" where
  "details_inv w =
     (spaced (map fst (fetch_log w)) \<and> (\<forall>t \<in> set (map fst (fetch_log w)). t \<le> lastApiCallTime w))"

subsection \<open>What a search reads from the network\<close>

text \<open>
  The URL \<open>multiSourceSearch\<close> asks Perenual, and the three conditions under which a
  source is searched: the option includes it and the configuration enables it.
\<close>

definition search_url :: "world \<Rightarrow> string \<Rightarrow> string" where
  "search_url w query =
     API_BASE_URL @ ''/species-list?key='' @ PERENUAL_API_KEY w @ ''&page=1&per_page=10'' @
     (if query \<noteq> [] then ''&q='' @ encodeURIComponent query else [])"

definition searches_perenual :: "world \<Rightarrow> search_options \<Rightarrow> bool" where
  "searches_perenual w options = (includePerenual options \<and> perenual_enabled (API_SOURCES w))"

definition searches_inaturalist :: "world \<Rightarrow> search_options \<Rightarrow> bool" where
  "searches_inaturalist w options = (includeINaturalist options \<and> inaturalist_enabled (API_SOURCES w))"

definition searches_toxicshrooms :: "world \<Rightarrow> search_options \<Rightarrow> bool" where
  "searches_toxicshrooms w options = (includeFungi options \<and> toxicshrooms_enabled (API_SOURCES w))"

text \<open>
  The replies to the fetches of one search. The fetches are numbered in the order they are
  issued: Perenual, then iNaturalist, then Toxic Shrooms, each only if it is searched.
\<close>

definition perenual_reply :: "world \<Rightarrow> string \<Rightarrow> search_options \<Rightarrow> reply" where
  "perenual_reply w query options = snd (network w (search_url w query) (length (fetch_log w)))"

definition inaturalist_reply :: "world \<Rightarrow> string \<Rightarrow> search_options \<Rightarrow> reply" where
  "inaturalist_reply w query options =
     snd (network w (inat_url query 1 (if includeFungi options then Some 47170 else None) 30)
            (length (fetch_log w) + (if searches_perenual w options then 1 else 0)))"

definition toxicshrooms_reply :: "world \<Rightarrow> string \<Rightarrow> search_options \<Rightarrow> reply" where
  "toxicshrooms_reply w query options =
     snd (network w (toxic_url None)
            (length (fetch_log w) + (if searches_perenual w options then 1 else 0) +
             (if searches_inaturalist w options then 1 else 0)))"

text \<open>A fetch that fails: rejected, a status that is not 2xx, or a body that is not JSON.\<close>

definition reply_fails :: "reply \<Rightarrow> bool" where
  "reply_fails r =
     (case r of Rejected \<Rightarrow> True | Response status body \<Rightarrow> \<not> response_ok status \<or> body = None)"

section \<open>Example states\<close>

text \<open>
  A state right after the page has loaded, for the examples: nothing stored, nothing
  fetched, \<open>lastApiCallTime = 0\<close>, every source enabled, a network that rejects every
  fetch. Of JSON the examples need only the texts \<open>{"id":n}\<close>. Every name and query
  of the examples is ASCII text, which \<open>String.prototype.toLowerCase\<close> lower-cases by
  mapping \<open>A\<close> to \<open>Z\<close> to \<open>a\<close> to \<open>z\<close>: \<open>ascii_lower\<close> stands for it there.
\<close>

definition ascii_lower :: "string \<Rightarrow> string" where
  "ascii_lower s =
     map (\<lambda>c. case map_of (zip ''ABCDEFGHIJKLMNOPQRSTUVWXYZ'' ''abcdefghijklmnopqrstuvwxyz'') c of
                 Some d \<Rightarrow> d
               | None \<Rightarrow> c) s"

definition quoted :: "string \<Rightarrow> string" where
  "quoted s = CHR 0x22 # s @ [CHR 0x22]"

definition id_text :: "int \<Rightarrow> string" where
  "id_text n = ''{'' @ quoted ''id'' @ '':'' @ show_int n @ ''}''"

definition parse_id_text :: "string \<Rightarrow> jsval option" where
  "parse_id_text s =
     (if startsWith s (''{'' @ quoted ''id'' @ '':'') \<and> s \<noteq> [] \<and> last s = CHR ''}'' then
        map_option (\<lambda>n. JObj [(''id'', JNum n)]) (parseInt (drop 6 s))
      else None)"

definition page_load :: world where
  "page_load =
     \<lparr>clock = 1700000000000,
      localStorage = (\<lambda>k. None),
      quota_exceeded = (\<lambda>k v. False),
      lastApiCallTime = 0,
      plantCache = (\<lambda>k. None),
      network = (\<lambda>url n. (0, Rejected)),
      fetch_log = [],
      JSON_parse = parse_id_text,
      JSON_stringify = (\<lambda>v. ''{'' @ quoted ''id'' @ '':'' @ js_toString (js_opt_get v ''id'') @ ''}''),
      toLowerCase = ascii_lower,
      PERENUAL_API_KEY = ''KEY'',
      API_SOURCES = \<lparr>perenual_enabled = True, inaturalist_enabled = True, toxicshrooms_enabled = True\<rparr>\<rparr>"

text \<open>A backend that answers the first fetch with status 429 and every later one with a record.\<close>

definition rate_limited_once :: world where
  "rate_limited_once =
     page_load\<lparr>network := (\<lambda>url n.
       if n = 0 then (120, Response 429 None)
       else (120, Response 200 (Some (JObj [(''id'', JNum 1), (''common_name'', JStr ''Rose'')]))))\<rparr>"

text \<open>
  A rate-limited backend, with an expired cache entry (written at time 0) for plant 5, and
  with expired entries for plants 1 and 5.
\<close>

definition stale_5 :: world where
  "stale_5 =
     page_load\<lparr>localStorage := (\<lambda>k. if k = ''plant_5'' then Some (id_text 5)
                                else if k = ''plant_5_time'' then Some (show_int 0) else None),
               network := (\<lambda>url n. (100, Response 429 None))\<rparr>"

definition stale_1_5 :: world where
  "stale_1_5 =
     page_load\<lparr>localStorage := (\<lambda>k. if k = ''plant_1'' then Some (id_text 1)
                                else if k = ''plant_1_time'' then Some (show_int 0)
                                else if k = ''plant_5'' then Some (id_text 5)
                                else if k = ''plant_5_time'' then Some (show_int 0) else None),
               network := (\<lambda>url n. (100, Response 429 None))\<rparr>"

text \<open>A backend that answers every fetch after 100 ms with an empty list.\<close>

definition answering :: world where
  "answering =
     page_load\<lparr>network := (\<lambda>url n. (100, Response 200 (Some (JObj [(''data'', JArr [])]))))\<rparr>"

text \<open>
  A search in fungi mode during which Perenual cannot be reached, while iNaturalist and
  Toxic Shrooms answer; and a configuration with iNaturalist disabled.
\<close>

definition fungi_options :: search_options where
  "fungi_options = \<lparr>includePerenual = True, includeINaturalist = True, includeFungi = True\<rparr>"

definition perenual_down :: world where
  "perenual_down =
     page_load\<lparr>network := (\<lambda>url n.
       if n = 0 then (50, Rejected)
       else if n = 1 then
         (80, Response 200 (Some (JObj [(''results'',
                 JArr [JObj [(''id'', JNum 47170), (''name'', JStr ''Fungi''), (''rank'', JStr ''kingdom'')]])])))
       else (30, Response 200 (Some (JArr [JObj [(''name'', JStr ''Amanita phalloides''),
                                                (''type'', JStr ''deadly'')],
                                          JObj [(''name'', JStr ''Galerina marginata'')]]))))\<rparr>"

text \<open>
  A search for \<open>fir\<close> that Perenual answers with its record 1, the scientific name an
  array as Perenual sends it, while iNaturalist cannot be reached.
\<close>

definition fir_found :: world where
  "fir_found =
     page_load\<lparr>network := (\<lambda>url n.
       if n = 0 then
         (120, Response 200 (Some (JObj [(''data'',
                 JArr [JObj [(''id'', JNum 1), (''common_name'', JStr ''European Silver Fir''),
                             (''scientific_name'', JArr [JStr ''Abies alba''])]]),
               (''total'', JNum 1)])))
       else (50, Rejected))\<rparr>"

definition inaturalist_off :: world where
  "inaturalist_off =
     answering\<lparr>API_SOURCES :=
       \<lparr>perenual_enabled = True, inaturalist_enabled = False, toxicshrooms_enabled = True\<rparr>\<rparr>"

section \<open>White space\<close>

lemma space_width_plain:
  "c \<notin> set [CHR 0x09, CHR 0x0A, CHR 0x0B, CHR 0x0C, CHR 0x0D, CHR 0x20,
              CHR 0xC2, CHR 0xE1, CHR 0xE2, CHR 0xE3, CHR 0xEF] \<Longrightarrow>
   space_width (c # cs) = 0"
  by (simp add: space_width_def WHITE_SPACE_def)

lemma space_width_space: "space_width (CHR '' '' # cs) = 1"
  by (simp add: space_width_def WHITE_SPACE_def)

lemma space_width_no_break_space: "space_width (CHR 0xC2 # CHR 0xA0 # cs) = 2"
  by (simp add: space_width_def WHITE_SPACE_def)

lemma trim_empty: "trim [] = []"
  by (simp add: trim_def)

lemma trim_no_break_space:
  "trim ('' Abies alba'' @ [CHR 0xC2, CHR 0xA0] @ '' '') = ''Abies alba''"
  by (simp add: trim_def space_width_plain space_width_space space_width_no_break_space)

section \<open>Properties of the merge\<close>

text \<open>
  On records whose two name fields are each a string or absent, \<open>combineSearchResults\<close>
  is the merge of the specification: the sources in the order perenual, inaturalist,
  toxicshrooms, the key of a record its lower-cased, trimmed scientific name, or that of
  its common name when the scientific name is absent or empty, and a record kept, with no
  field changed but \<open>source\<close>, exactly when its key is empty or no earlier record has
  its key. The lower-casing is the platform's, of which only \<open>''.toLowerCase() = ''\<close>
  is used.
\<close>

lemma keys_of_simps [simp]:
  "keys_of w [] = {}"
  "keys_of w (r # rs) =
     (if spec_dedup_key w (snd r) = [] then keys_of w rs
      else insert (spec_dedup_key w (snd r)) (keys_of w rs))"
  "keys_of w (xs @ ys) = keys_of w xs \<union> keys_of w ys"
  by (auto simp: keys_of_def)

lemma name_ok_cases:
  assumes "name_ok v"
  obtains "v = None" | "v = Some JUndefined" | "v = Some JNull" | s where "v = Some (JStr s)"
  using assms by (auto simp: name_ok_def split: option.splits jsval.splits)

lemma item_key_named:
  assumes "named_record item" and "toLowerCase w [] = []"
  shows "item_key w item = Inr (spec_dedup_key w item)"
proof -
  from assms(1) obtain fs where item: "item = JObj fs"
    and sn: "name_ok (map_of fs ''scientific_name'')" and cn: "name_ok (map_of fs ''common_name'')"
    by (auto simp: named_record_def split: jsval.splits)
  have empty: "trim (toLowerCase w []) = []" by (simp add: assms(2) trim_empty)
  from sn cn show ?thesis
    by (elim name_ok_cases)
       (simp_all add: item item_key_def spec_dedup_key_def present_name_def bindE_def lower_trim_def empty)
qed

lemma addItems_keep_new:
  "\<forall>x \<in> set items. named_record x \<Longrightarrow> toLowerCase w [] = [] \<Longrightarrow>
   addItems w items src (combined, seen) =
     Inr (combined @ map (\<lambda>r. with_source (snd r) (fst r)) (keep_new w seen (map (Pair src) items)),
          seen \<union> keys_of w (map (Pair src) items))"
proof (induction items arbitrary: combined seen)
  case Nil
  then show ?case by simp
next
  case (Cons item rest)
  then show ?case
    by (auto simp: item_key_named bindE_def)
qed

lemma keep_new_append:
  "keep_new w seen (xs @ ys) = keep_new w seen xs @ keep_new w (seen \<union> keys_of w xs) ys"
  by (induction xs arbitrary: seen) (auto simp: insert_absorb)

lemma keep_new_index:
  "keep_new w (keys_of w pre) rs =
     map (\<lambda>i. (pre @ rs) ! i) (filter (spec_kept w (pre @ rs)) [length pre..<length pre + length rs])"
proof (induction rs arbitrary: pre)
  case Nil
  then show ?case by simp
next
  case (Cons r rs)
  have kept: "spec_kept w (pre @ r # rs) (length pre) \<longleftrightarrow>
      (spec_dedup_key w (snd r) = [] \<or> spec_dedup_key w (snd r) \<notin> keys_of w pre)"
    by (auto simp: spec_kept_def keys_of_def)
  have step: "keep_new w (keys_of w (pre @ [r])) rs =
     map (\<lambda>i. (pre @ r # rs) ! i)
       (filter (spec_kept w (pre @ r # rs)) [Suc (length pre)..<Suc (length pre + length rs)])"
    using Cons.IH [of "pre @ [r]"] by simp
  have "[length pre..<Suc (length pre + length rs)] = length pre # [Suc (length pre)..<Suc (length pre + length rs)]"
    by (rule upt_conv_Cons) simp
  then have upt: "[length pre..<length pre + length (r # rs)] = length pre # [Suc (length pre)..<Suc (length pre + length rs)]"
    by simp
  show ?case
  proof (cases "spec_dedup_key w (snd r) = []")
    case True
    then have "keys_of w (pre @ [r]) = keys_of w pre" by simp
    with True step kept upt show ?thesis by simp
  next
    case False
    show ?thesis
    proof (cases "spec_dedup_key w (snd r) \<in> keys_of w pre")
      case True
      then have "keys_of w (pre @ [r]) = keys_of w pre" using False by auto
      with True False step kept upt show ?thesis by simp
    next
      case no: False
      have "keys_of w (pre @ [r]) = insert (spec_dedup_key w (snd r)) (keys_of w pre)" using False by simp
      with no False step kept upt show ?thesis by simp
    qed
  qed
qed

lemma keep_new_spec: "map (\<lambda>r. with_source (snd r) (fst r)) (keep_new w {} recs) = spec_merge w recs"
  using keep_new_index [of w "[]" recs] by (simp add: spec_merge_def comp_def)

lemma combine_refines:
  assumes "perenual r = JArr ps" "inaturalist r = JArr ns" "toxicshrooms r = JArr ts"
    and "\<forall>x \<in> set (ps @ ns @ ts). named_record x" and "toLowerCase w [] = []"
  shows "combineSearchResults w r = Inr (spec_merge w (by_priority ps ns ts))"
proof -
  have p: "\<forall>x \<in> set ps. named_record x" and n: "\<forall>x \<in> set ns. named_record x"
    and t: "\<forall>x \<in> set ts. named_record x" using assms(4) by auto
  show ?thesis
    unfolding combineSearchResults_def addResults_def assms(1-3)
    by (simp add: bindE_def addItems_keep_new [OF p assms(5)] addItems_keep_new [OF n assms(5)]
        addItems_keep_new [OF t assms(5)]
        by_priority_def keep_new_append keep_new_spec [symmetric] Un_assoc)
qed

lemma spec_merge_pair:
  assumes "spec_dedup_key w a = spec_dedup_key w b" "spec_dedup_key w a \<noteq> []"
  shows "spec_merge w [(sa, a), (sb, b)] = [with_source a sa]"
proof -
  have "[0..<2] = [0, Suc 0]" by (simp add: upt_conv_Cons)
  then have "filter (spec_kept w [(sa, a), (sb, b)]) [0..<length [(sa, a), (sb, b)]] = [0]"
    using assms by (simp add: spec_kept_def)
  then show ?thesis by (simp add: spec_merge_def)
qed

text \<open>
  Of two such records whose keys are the same and not empty, as when the scientific names
  differ in letter case and surrounding white space only, the output holds exactly one: the
  earlier one in priority order.
\<close>

lemma combine_same_key:
  assumes "perenual r = JArr ps" "inaturalist r = JArr ns" "toxicshrooms r = JArr ts"
    and "by_priority ps ns ts = [(sa, a), (sb, b)]"
    and "named_record a" "named_record b" and "toLowerCase w [] = []"
    and "spec_dedup_key w a = spec_dedup_key w b" "spec_dedup_key w a \<noteq> []"
  shows "combineSearchResults w r = Inr [with_source a sa]"
proof -
  have "map snd (by_priority ps ns ts) = ps @ ns @ ts"
    by (simp add: by_priority_def comp_def)
  with assms(4) have "ps @ ns @ ts = [a, b]" by simp
  with assms(5,6) have named: "\<forall>x \<in> set (ps @ ns @ ts). named_record x" by simp
  show ?thesis
    using combine_refines [OF assms(1-3) named assms(7)] spec_merge_pair [OF assms(8,9)]
    by (simp add: assms(4))
qed

lemma amanita_merged:
  "combineSearchResults page_load
     \<lparr>perenual = JArr [JObj [(''scientific_name'', JStr ''Amanita phalloides'')]],
      inaturalist = JArr [JObj [(''scientific_name'', JStr ''amanita phalloides ''), (''rank'', JStr ''species'')]],
      toxicshrooms = JArr [], total = JNum 0\<rparr> =
   Inr [JObj [(''scientific_name'', JStr ''Amanita phalloides''), (''source'', JStr ''perenual'')]]"
proof -
  have lower: "toLowerCase page_load = ascii_lower" by (simp add: page_load_def)
  have k1: "spec_dedup_key page_load (JObj [(''scientific_name'', JStr ''Amanita phalloides'')]) =
      ''amanita phalloides''"
    by (simp add: spec_dedup_key_def present_name_def lower ascii_lower_def trim_def
        space_width_plain space_width_space)
  have k2: "spec_dedup_key page_load
      (JObj [(''scientific_name'', JStr ''amanita phalloides ''), (''rank'', JStr ''species'')]) =
      ''amanita phalloides''"
    by (simp add: spec_dedup_key_def present_name_def lower ascii_lower_def trim_def
        space_width_plain space_width_space)
  show ?thesis
    using combine_same_key [of
      "\<lparr>perenual = JArr [JObj [(''scientific_name'', JStr ''Amanita phalloides'')]],
        inaturalist = JArr [JObj [(''scientific_name'', JStr ''amanita phalloides ''), (''rank'', JStr ''species'')]],
        toxicshrooms = JArr [], total = JNum 0\<rparr>"
      "[JObj [(''scientific_name'', JStr ''Amanita phalloides'')]]"
      "[JObj [(''scientific_name'', JStr ''amanita phalloides ''), (''rank'', JStr ''species'')]]"
      "[]" "''perenual''" "JObj [(''scientific_name'', JStr ''Amanita phalloides'')]"
      "''inaturalist''" "JObj [(''scientific_name'', JStr ''amanita phalloides ''), (''rank'', JStr ''species'')]"
      page_load]
    by (simp add: k1 k2 lower named_record_def name_ok_def by_priority_def with_source_def
        ascii_lower_def)
qed

section \<open>Properties of the normalizers\<close>














section \<open>parseInt reads back what toString prints\<close>

lemma digit_char_in: "d < 10 \<Longrightarrow> digit_char d \<in> set ''0123456789''"
proof -
  assume "d < 10"
  then have "d \<in> {0,1,2,3,4,5,6,7,8,9}" by auto
  then show ?thesis by (auto simp: digit_char_def)
qed

lemma digit_of_digit_char: "d < 10 \<Longrightarrow> digit_of 10 (digit_char d) = Some d"
proof -
  assume "d < 10"
  then have "d \<in> {0,1,2,3,4,5,6,7,8,9}" by auto
  then show ?thesis by (auto simp: digit_char_def digit_of_def)
qed

lemma digits_set: "set (digits n) \<subseteq> set ''0123456789''"
proof (induction n rule: digits.induct)
  case (1 n)
  show ?case
  proof (cases "n < 10")
    case True
    then show ?thesis using digit_char_in [of n] by (subst digits.simps) simp
  next
    case False
    have "n mod 10 < 10" by simp
    then have "digit_char (n mod 10) \<in> set ''0123456789''" by (rule digit_char_in)
    with False 1 show ?thesis by (subst digits.simps) simp
  qed
qed

lemma digits_nonempty: "digits n \<noteq> []"
  by (subst digits.simps) simp

lemma digits_value_snoc:
  "digits_value r (s @ [c]) = digits_value r s * r + (case digit_of r c of Some d \<Rightarrow> d | None \<Rightarrow> 0)"
  by (simp add: digits_value_def)

lemma digits_value_digits: "digits_value 10 (digits n) = n"
proof (induction n rule: digits.induct)
  case (1 n)
  show ?case
  proof (cases "n < 10")
    case True
    then show ?thesis
      by (subst digits.simps) (simp add: digits_value_def digit_of_digit_char)
  next
    case False
    have "digits_value 10 (digits (n div 10) @ [digit_char (n mod 10)]) = (n div 10) * 10 + n mod 10"
      using 1 False by (simp add: digits_value_snoc digit_of_digit_char)
    with False show ?thesis by (subst digits.simps) simp
  qed
qed

lemma digit_of_decimal: "c \<in> set ''0123456789'' \<Longrightarrow> digit_of 10 c \<noteq> None"
  by (auto simp: digit_of_def)

lemma takeWhile_digits: "takeWhile (\<lambda>c. digit_of 10 c \<noteq> None) (digits n) = digits n"
  using digits_set [of n] digit_of_decimal by (intro takeWhile_eq_all_conv [THEN iffD2]) blast

lemma parse_digits_digits: "parse_digits 10 (digits n) = Some (int n)"
  unfolding parse_digits_def takeWhile_digits Let_def
  by (simp add: digits_nonempty digits_value_digits)

lemma startsWith_set: "startsWith s p \<Longrightarrow> set p \<subseteq> set s"
  by (induction s p rule: startsWith.induct) auto

lemma digits_no_prefix:
  "\<not> startsWith (digits n) ''-''" "\<not> startsWith (digits n) ''+''"
  "\<not> startsWith (digits n) ''0x''" "\<not> startsWith (digits n) ''0X''"
  using digits_set [of n] by (auto dest!: startsWith_set)

lemma digits_no_space: "trimStart (digits n) = digits n"
proof -
  obtain c cs where c: "digits n = c # cs" using digits_nonempty by (cases "digits n") auto
  then have "c \<in> set ''0123456789''" using digits_set [of n] by auto
  then have "space_width (c # cs) = 0" by (auto simp: space_width_plain)
  with c show ?thesis by simp
qed

lemma parseInt_digits: "parseInt (digits n) = Some (int n)"
  by (simp add: parseInt_def digits_no_space digits_no_prefix parse_digits_digits)

lemma parseInt_show_int: "parseInt (show_int t) = Some t"
proof (cases "t < 0")
  case True
  have "space_width (CHR ''-'' # digits (nat (- t))) = 0" by (simp add: space_width_plain)
  then show ?thesis
    using True by (simp add: show_int_def parseInt_def digits_no_prefix parse_digits_digits)
next
  case False
  then show ?thesis by (simp add: show_int_def parseInt_digits)
qed

section \<open>The retry loop of getPlantDetails\<close>

lemma cache_put_fields [simp]:
  "fetch_log (cache_put k v t w) = fetch_log w"
  "clock (cache_put k v t w) = clock w"
  "lastApiCallTime (cache_put k v t w) = lastApiCallTime w"
  "network (cache_put k v t w) = network w"
  "PERENUAL_API_KEY (cache_put k v t w) = PERENUAL_API_KEY w"
  "plantCache (cache_put k v t w) = plantCache w"
  "JSON_parse (cache_put k v t w) = JSON_parse w"
  by (simp_all add: cache_put_def setItem_def split: sum.splits)

lemma attempt_try_fields:
  "fetch_log (snd (attempt_try w p k r a)) = fetch_log w @ [(call_time w, details_url w p)]"
  "lastApiCallTime (snd (attempt_try w p k r a)) = call_time w"
  "network (snd (attempt_try w p k r a)) = network w"
  "PERENUAL_API_KEY (snd (attempt_try w p k r a)) = PERENUAL_API_KEY w"
  "call_time w \<le> clock (snd (attempt_try w p k r a))"
  by (simp_all add: attempt_try_def fetch_def sleep_def Let_def call_time_def details_url_def
      split: prod.splits reply.splits option.splits sum.splits)

lemma sleep_fields [simp]:
  "fetch_log (sleep ms w) = fetch_log w"
  "clock (sleep ms w) = clock w + ms"
  "lastApiCallTime (sleep ms w) = lastApiCallTime w"
  "network (sleep ms w) = network w"
  "PERENUAL_API_KEY (sleep ms w) = PERENUAL_API_KEY w"
  "localStorage (sleep ms w) = localStorage w"
  by (simp_all add: sleep_def)

lemma attempt_tryD:
  assumes "attempt_try w p k r a = (out, w')"
  shows "fetch_log w' = fetch_log w @ [(call_time w, details_url w p)]"
    and "lastApiCallTime w' = call_time w"
    and "network w' = network w"
    and "PERENUAL_API_KEY w' = PERENUAL_API_KEY w"
    and "call_time w \<le> clock w'"
  using attempt_try_fields [of w p k r a] assms by simp_all

lemma attempt_loop_bound:
  "length (fetch_log (snd (attempt_loop w p k r a))) \<le> length (fetch_log w) + nat (r + 1 - a)"
proof (induction w p k r a rule: attempt_loop.induct)
  case (1 w p k r a)
  show ?case
  proof (cases "a \<le> r")
    case False
    then show ?thesis by (subst attempt_loop.simps) simp
  next
    case True
    obtain out w' where at: "attempt_try w p k r a = (out, w')"
      by (cases "attempt_try w p k r a")
    have len: "length (fetch_log w') = Suc (length (fetch_log w))"
      using attempt_tryD(1) [OF at] by simp
    have nat: "nat (r + 1 - a) = Suc (nat (r + 1 - (a + 1)))" using True by simp
    show ?thesis
      using "1.IH" True at len nat
      by (subst attempt_loop.simps) (auto split: sum.splits attempt_end.splits)
  qed
qed

lemma attempt_try_failing:
  assumes "reply_error (snd (network w (details_url w p) (length (fetch_log w)))) = Some e"
  shows "a = r \<Longrightarrow> fst (attempt_try w p k r a) = Inl e"
    and "fst (attempt_try w p k r a) = Inr Continued \<or> (\<exists>e'. fst (attempt_try w p k r a) = Inl e')"
  using assms
  by (auto simp: attempt_try_def fetch_def sleep_def Let_def reply_error_def details_url_def
      split: prod.splits reply.splits option.splits sum.splits if_splits)

lemma attempt_loop_failing:
  assumes "\<forall>n. reply_error (snd (network w (details_url w p) n)) \<noteq> None" "a \<le> r"
  shows "\<exists>e w'. attempt_loop w p k r a = (Inl e, w') \<and>
           length (fetch_log w') = length (fetch_log w) + nat (r + 1 - a) \<and>
           reply_error (snd (network w (details_url w p) (length (fetch_log w) + nat (r - a)))) = Some e"
  using assms
proof (induction w p k r a rule: attempt_loop.induct)
  case (1 w p k r a)
  obtain out w' where at: "attempt_try w p k r a = (out, w')"
    by (cases "attempt_try w p k r a")
  have len: "length (fetch_log w') = Suc (length (fetch_log w))"
    using attempt_tryD(1) [OF at] by simp
  have net: "network w' = network w" and url: "details_url w' p = details_url w p"
    using attempt_tryD(3,4) [OF at] by (simp_all add: details_url_def)
  from "1.prems"(1) obtain e0 where
    e0: "reply_error (snd (network w (details_url w p) (length (fetch_log w)))) = Some e0"
    by blast
  show ?case
  proof (cases "a = r")
    case True
    have out: "out = Inl e0" using attempt_try_failing(1) [OF e0 True, of k] at by simp
    have at': "attempt_try w p k r r = (Inl e0, w')" using at out True by simp
    have "attempt_loop w p k r a = (Inl e0, w')"
      by (subst attempt_loop.simps) (simp add: at' True)
    moreover have "length (fetch_log w') = length (fetch_log w) + nat (r + 1 - a)"
      using len True by simp
    ultimately show ?thesis using e0 True by simp
  next
    case False
    with "1.prems"(2) have lt: "a + 1 \<le> r" by simp
    have nat1: "Suc (length (fetch_log w)) + nat (r + 1 - (a + 1)) = length (fetch_log w) + nat (r + 1 - a)"
      and nat2: "Suc (length (fetch_log w)) + nat (r - (a + 1)) = length (fetch_log w) + nat (r - a)"
      using lt by simp_all
    from attempt_try_failing(2) [OF e0, of k r a] at
    consider "out = Inr Continued" | e' where "out = Inl e'" by auto
    then show ?thesis
    proof cases
      case 1
      have hyp: "\<forall>n. reply_error (snd (network w' (details_url w' p) n)) \<noteq> None"
        using "1.prems"(1) net url by simp
      have step: "attempt_loop w p k r a = attempt_loop w' p k r (a + 1)"
        by (subst attempt_loop.simps) (simp add: at 1 "1.prems"(2))
      from "1.IH"(2) [OF "1.prems"(2) at [symmetric] 1 refl hyp lt]
      obtain e w'' where "attempt_loop w' p k r (a + 1) = (Inl e, w'')"
        "length (fetch_log w'') = length (fetch_log w') + nat (r + 1 - (a + 1))"
        "reply_error (snd (network w' (details_url w' p) (length (fetch_log w') + nat (r - (a + 1))))) = Some e"
        by blast
      then show ?thesis
        unfolding step net url len nat1 nat2 by blast
    next
      case 2
      let ?w = "sleep 500 w'"
      have url': "details_url ?w p = details_url w p"
        using url by (simp add: details_url_def)
      have net': "network ?w = network w" using net by simp
      have len': "length (fetch_log ?w) = Suc (length (fetch_log w))" using len by simp
      have hyp: "\<forall>n. reply_error (snd (network ?w (details_url ?w p) n)) \<noteq> None"
        using "1.prems"(1) unfolding url' net' by simp
      have step: "attempt_loop w p k r a = attempt_loop ?w p k r (a + 1)"
        by (subst attempt_loop.simps) (simp add: at 2 False "1.prems"(2))
      from "1.IH"(1) [OF "1.prems"(2) at [symmetric] 2 False hyp lt]
      obtain e w'' where "attempt_loop ?w p k r (a + 1) = (Inl e, w'')"
        "length (fetch_log w'') = length (fetch_log ?w) + nat (r + 1 - (a + 1))"
        "reply_error (snd (network ?w (details_url ?w p) (length (fetch_log ?w) + nat (r - (a + 1))))) = Some e"
        by blast
      then show ?thesis
        unfolding step url' net' len' nat1 nat2 by blast
    qed
  qed
qed

lemma attempt_loop_mono:
  "length (fetch_log w) \<le> length (fetch_log (snd (attempt_loop w p k r a)))"
proof (induction w p k r a rule: attempt_loop.induct)
  case (1 w p k r a)
  show ?case
  proof (cases "a \<le> r")
    case False
    then show ?thesis by (subst attempt_loop.simps) simp
  next
    case True
    obtain out w' where at: "attempt_try w p k r a = (out, w')"
      by (cases "attempt_try w p k r a")
    have len: "length (fetch_log w') = Suc (length (fetch_log w))"
      using attempt_tryD(1) [OF at] by simp
    have c: "out = Inr Continued \<Longrightarrow>
        length (fetch_log w') \<le> length (fetch_log (snd (attempt_loop w' p k r (a + 1))))"
      using "1.IH"(2) [OF True at [symmetric] _ refl] by simp
    have e: "\<And>e. out = Inl e \<Longrightarrow> a \<noteq> r \<Longrightarrow>
        length (fetch_log (sleep 500 w')) \<le> length (fetch_log (snd (attempt_loop (sleep 500 w') p k r (a + 1))))"
      using "1.IH"(1) [OF True at [symmetric]] by simp
    show ?thesis
      using True at len c e
      by (subst attempt_loop.simps) (auto split: sum.splits attempt_end.splits)
  qed
qed

lemma attempt_loop_fetches:
  assumes "a \<le> r"
  shows "length (fetch_log w) < length (fetch_log (snd (attempt_loop w p k r a)))"
proof -
  obtain out w' where at: "attempt_try w p k r a = (out, w')"
    by (cases "attempt_try w p k r a")
  have len: "length (fetch_log w') = Suc (length (fetch_log w))"
    using attempt_tryD(1) [OF at] by simp
  have "length (fetch_log w') \<le> length (fetch_log (snd (attempt_loop w' p k r (a + 1))))"
    "length (fetch_log (sleep 500 w')) \<le> length (fetch_log (snd (attempt_loop (sleep 500 w') p k r (a + 1))))"
    by (rule attempt_loop_mono)+
  then show ?thesis
    using assms at len
    by (subst attempt_loop.simps) (auto split: sum.splits attempt_end.splits)
qed

lemma getPlantDetails_bound:
  "length (fetch_log (snd (getPlantDetails w plantId retries))) \<le> length (fetch_log w) + nat retries"
  using attempt_loop_bound [of w plantId "''plant_'' @ js_toString plantId" retries 1]
  by (simp add: getPlantDetails_def Let_def split: option.splits)

lemma getPlantDetails_failing:
  assumes "1 \<le> retries" "fresh_cached w (''plant_'' @ js_toString plantId) = None"
    "\<not> isNonPerenual plantId"
    "\<forall>n. reply_error (snd (network w (details_url w plantId) n)) \<noteq> None"
  shows "\<exists>e w'. getPlantDetails w plantId retries = (Inl e, w') \<and>
            length (fetch_log w') = length (fetch_log w) + nat retries \<and>
            reply_error (snd (network w (details_url w plantId)
              (length (fetch_log w) + nat retries - 1))) = Some e"
proof -
  have "nat (retries - 1) = nat retries - 1" by simp
  moreover have "length (fetch_log w) + (nat retries - 1) = length (fetch_log w) + nat retries - 1"
    using assms(1) by simp
  ultimately show ?thesis
    using attempt_loop_failing [OF assms(4,1), of "''plant_'' @ js_toString plantId"] assms(2,3)
    by (simp add: getPlantDetails_def Let_def)
qed

text \<open>
  Claim C8. Whatever the backend answers, one call of \<open>getPlantDetails\<close> issues at most
  \<open>retries\<close> fetches. When the call reaches the network (no fresh cache entry, a Perenual
  id) with \<open>retries\<close> at least 1 and every reply is a failure, it issues exactly
  \<open>retries\<close> fetches and then throws the error of the last one.
\<close>

theorem getPlantDetails_retry_bound:
  "length (fetch_log (snd (getPlantDetails w plantId retries))) \<le> length (fetch_log w) + nat retries \<and>
   (1 \<le> retries \<and> fresh_cached w (''plant_'' @ js_toString plantId) = None \<and>
    \<not> isNonPerenual plantId \<and>
    (\<forall>n. reply_error (snd (network w (details_url w plantId) n)) \<noteq> None) \<longrightarrow>
    (\<exists>e w'. getPlantDetails w plantId retries = (Inl e, w') \<and>
            length (fetch_log w') = length (fetch_log w) + nat retries \<and>
            reply_error (snd (network w (details_url w plantId)
              (length (fetch_log w) + nat retries - 1))) = Some e))"
  using getPlantDetails_bound getPlantDetails_failing by blast

lemma show_int_500: "show_int 500 = ''500''"
  by (simp add: show_int_def digits.simps digit_char_def)

theorem getPlantDetails_retry_bound_witness:
  "fresh_cached (page_load\<lparr>network := \<lambda>url n. (100, Response 500 None)\<rparr>) (''plant_'' @ js_toString (JNum 1)) = None \<and>
   \<not> isNonPerenual (JNum 1) \<and>
   fst (getPlantDetails (page_load\<lparr>network := \<lambda>url n. (100, Response 500 None)\<rparr>) (JNum 1) 2) =
     Inl (Error ''Plant details failed: 500'') \<and>
   length (fetch_log (snd (getPlantDetails (page_load\<lparr>network := \<lambda>url n. (100, Response 500 None)\<rparr>) (JNum 1) 2))) = 2"
  using getPlantDetails_retry_bound [of "page_load\<lparr>network := \<lambda>url n. (100, Response 500 None)\<rparr>" "JNum 1" 2]
  by (auto simp: page_load_def fresh_cached_def isNonPerenual_def reply_error_def response_ok_def
      show_int_500)

section \<open>The cache read and ids of other sources\<close>

lemma key_time_neq: "key @ ''_time'' \<noteq> key"
proof
  assume "key @ ''_time'' = key"
  then have "length (key @ ''_time'') = length key" by simp
  then show False by simp
qed

lemma fresh_cached_iff:
  "fresh_cached w key = Some c \<longleftrightarrow>
     localStorage w key = Some c \<and> c \<noteq> [] \<and>
     (\<exists>ts t. localStorage w (key @ ''_time'') = Some ts \<and> ts \<noteq> [] \<and>
             parseInt ts = Some t \<and> clock w - t < 86400000)"
  by (auto simp: fresh_cached_def split: option.splits)

lemma getPlantDetails_cached:
  "fresh_cached w (''plant_'' @ js_toString plantId) = Some c \<Longrightarrow>
   getPlantDetails w plantId retries =
     ((case JSON_parse w c of Some v \<Rightarrow> Inr v | None \<Rightarrow> Inl SyntaxError), w)"
  by (simp add: getPlantDetails_def Let_def split: option.splits)

lemma getPlantDetails_uncached:
  "fresh_cached w (''plant_'' @ js_toString plantId) = None \<Longrightarrow> \<not> isNonPerenual plantId \<Longrightarrow>
   1 \<le> retries \<Longrightarrow>
   length (fetch_log w) < length (fetch_log (snd (getPlantDetails w plantId retries)))"
  using attempt_loop_fetches [of 1 retries w plantId "''plant_'' @ js_toString plantId"]
  by (simp add: getPlantDetails_def Let_def)

lemma cache_put_stored:
  assumes "\<not> quota_exceeded w key (JSON_stringify w v)"
    "\<not> quota_exceeded w (key @ ''_time'') (show_int t)"
  shows "localStorage (cache_put key v t w) key = Some (JSON_stringify w v)"
    and "localStorage (cache_put key v t w) (key @ ''_time'') = Some (show_int t)"
  using assms key_time_neq [of key] by (auto simp: cache_put_def setItem_def)

lemma show_int_nonempty: "show_int t \<noteq> []"
  by (simp add: show_int_def digits_nonempty)

lemma fresh_after_put:
  assumes "\<not> quota_exceeded w key (JSON_stringify w v)"
    "\<not> quota_exceeded w (key @ ''_time'') (show_int t)" "JSON_stringify w v \<noteq> []"
  shows "fresh_cached ((cache_put key v t w)\<lparr>clock := now\<rparr>) key =
           (if now - t < 86400000 then Some (JSON_stringify w v) else None)"
  using cache_put_stored [OF assms(1,2)] assms(3)
  by (simp add: fresh_cached_def parseInt_show_int show_int_nonempty)

text \<open>
  Claim C7. The cache read at the head of \<open>getPlantDetails\<close> yields the stored text
  exactly when payload and timestamp are both stored and not empty and the age, now minus
  the parsed timestamp, is below 86400000. On such a hit \<open>getPlantDetails\<close> returns the
  parsed payload and leaves the state as it is: no wait, no fetch, no formatting, no write.
  Without a hit a call for a Perenual id with at least one attempt does reach the network.
  An entry written at time \<open>t\<close> is read at \<open>t + 86400000 - 1\<close> and is absent at
  \<open>t + 86400000\<close> and at \<open>t + 86400000 + 1\<close>.
\<close>

theorem cache_read_ttl:
  "(fresh_cached w key = Some c \<longleftrightarrow>
      localStorage w key = Some c \<and> c \<noteq> [] \<and>
      (\<exists>ts t. localStorage w (key @ ''_time'') = Some ts \<and> ts \<noteq> [] \<and>
              parseInt ts = Some t \<and> clock w - t < 86400000)) \<and>
   (fresh_cached w (''plant_'' @ js_toString plantId) = Some c \<longrightarrow>
      getPlantDetails w plantId retries =
        ((case JSON_parse w c of Some v \<Rightarrow> Inr v | None \<Rightarrow> Inl SyntaxError), w)) \<and>
   (fresh_cached w (''plant_'' @ js_toString plantId) = None \<and> \<not> isNonPerenual plantId \<and>
    1 \<le> retries \<longrightarrow>
      length (fetch_log w) < length (fetch_log (snd (getPlantDetails w plantId retries)))) \<and>
   (\<not> quota_exceeded w key (JSON_stringify w v) \<and>
    \<not> quota_exceeded w (key @ ''_time'') (show_int t) \<and> JSON_stringify w v \<noteq> [] \<longrightarrow>
      fresh_cached ((cache_put key v t w)\<lparr>clock := t + 86400000 - 1\<rparr>) key = Some (JSON_stringify w v) \<and>
      fresh_cached ((cache_put key v t w)\<lparr>clock := t + 86400000\<rparr>) key = None \<and>
      fresh_cached ((cache_put key v t w)\<lparr>clock := t + 86400000 + 1\<rparr>) key = None)"
  using fresh_cached_iff [of w key c] getPlantDetails_cached [of w plantId c retries]
    getPlantDetails_uncached [of w plantId retries] fresh_after_put [of w key v t]
  by simp

text \<open>
  Claim C10. For an id string with one of the prefixes \<open>inat_\<close>, \<open>toxic_\<close>,
  \<open>gbif_\<close>, \<open>trefle_\<close> and no fresh \<open>localStorage\<close> entry, \<open>getPlantDetails\<close>
  leaves the state as it is, so it issues no fetch; it returns the record that
  \<open>plantCache\<close> holds for the id, and throws when \<open>plantCache\<close> holds none.
\<close>

theorem non_perenual_no_fetch:
  "(startsWith s ''inat_'' \<or> startsWith s ''toxic_'' \<or> startsWith s ''gbif_'' \<or>
    startsWith s ''trefle_'') \<and> fresh_cached w (''plant_'' @ s) = None \<longrightarrow>
   snd (getPlantDetails w (JStr s) retries) = w \<and>
   fetch_log (snd (getPlantDetails w (JStr s) retries)) = fetch_log w \<and>
   (\<forall>v. plantCache w (JStr s) = Some v \<and> truthy v \<longrightarrow>
        fst (getPlantDetails w (JStr s) retries) = Inr v) \<and>
   (plantCache w (JStr s) = None \<longrightarrow>
        fst (getPlantDetails w (JStr s) retries) = Inl (Error (non_perenual_message (JStr s))))"
  by (auto simp: getPlantDetails_def isNonPerenual_def split: option.splits)

lemma show_int_digit: "0 \<le> n \<Longrightarrow> n < 10 \<Longrightarrow> show_int n = [digit_char (nat n)]"
  by (simp add: show_int_def digits.simps)

lemma parse_id_text_3: "parse_id_text (id_text 3) = Some (JObj [(''id'', JNum 3)])"
  by (simp add: parse_id_text_def id_text_def quoted_def show_int_digit digit_char_def
      parseInt_def parse_digits_def digits_value_def digit_of_def space_width_plain)

theorem cache_read_ttl_witness:
  "fresh_cached
     (page_load\<lparr>localStorage := (\<lambda>k. if k = ''plant_3'' then Some (id_text 3)
                      else if k = ''plant_3_time'' then Some (show_int 1699999000000) else None)\<rparr>)
     ''plant_3'' = Some (id_text 3) \<and>
   getPlantDetails
     (page_load\<lparr>localStorage := (\<lambda>k. if k = ''plant_3'' then Some (id_text 3)
                      else if k = ''plant_3_time'' then Some (show_int 1699999000000) else None)\<rparr>)
     (JNum 3) 1 =
     (Inr (JObj [(''id'', JNum 3)]),
      page_load\<lparr>localStorage := (\<lambda>k. if k = ''plant_3'' then Some (id_text 3)
                      else if k = ''plant_3_time'' then Some (show_int 1699999000000) else None)\<rparr>) \<and>
   fresh_cached page_load ''plant_3'' = None \<and>
   length (fetch_log page_load) < length (fetch_log (snd (getPlantDetails page_load (JNum 3) 1))) \<and>
   fresh_cached ((cache_put ''plant_3'' (JObj [(''id'', JNum 3)]) 1700000000000 page_load)
                   \<lparr>clock := 1700000000000 + 86400000 - 1\<rparr>) ''plant_3'' = Some (id_text 3) \<and>
   fresh_cached ((cache_put ''plant_3'' (JObj [(''id'', JNum 3)]) 1700000000000 page_load)
                   \<lparr>clock := 1700000000000 + 86400000 + 1\<rparr>) ''plant_3'' = None"
proof -
  let ?W = "page_load\<lparr>localStorage := (\<lambda>k. if k = ''plant_3'' then Some (id_text 3)
                      else if k = ''plant_3_time'' then Some (show_int 1699999000000) else None)\<rparr>"
  let ?v = "JObj [(''id'', JNum 3)]"
  have key: "show_int 3 = ''3''"
    by (simp add: show_int_digit digit_char_def)
  have jp: "JSON_parse ?W = parse_id_text" by (simp add: page_load_def)
  have nonempty: "id_text 3 \<noteq> []" by (simp add: id_text_def)
  have fresh: "fresh_cached ?W ''plant_3'' = Some (id_text 3)"
    using cache_read_ttl [of ?W "''plant_3''" "id_text 3" "JNum 3" 1 ?v 0, THEN conjunct1] nonempty
    by (simp add: page_load_def parseInt_show_int show_int_nonempty)
  have hit: "getPlantDetails ?W (JNum 3) 1 = (Inr ?v, ?W)"
    using cache_read_ttl [of ?W "''plant_3''" "id_text 3" "JNum 3" 1 ?v 0] fresh
    by (simp add: key jp parse_id_text_3)
  have none: "fresh_cached page_load ''plant_3'' = None"
    by (simp add: fresh_cached_def page_load_def)
  have miss: "length (fetch_log page_load) < length (fetch_log (snd (getPlantDetails page_load (JNum 3) 1)))"
    using cache_read_ttl [of page_load "''plant_3''" "id_text 3" "JNum 3" 1 ?v 0] none
    by (simp add: key isNonPerenual_def)
  have str: "JSON_stringify page_load ?v = id_text 3"
    by (simp add: page_load_def id_text_def js_opt_get_def)
  have quota: "\<not> quota_exceeded page_load k x" for k x
    by (simp add: page_load_def)
  have "fresh_cached ((cache_put ''plant_3'' ?v 1700000000000 page_load)
                   \<lparr>clock := 1700000000000 + 86400000 - 1\<rparr>) ''plant_3'' = Some (id_text 3) \<and>
        fresh_cached ((cache_put ''plant_3'' ?v 1700000000000 page_load)
                   \<lparr>clock := 1700000000000 + 86400000 + 1\<rparr>) ''plant_3'' = None"
    using cache_read_ttl [of page_load "''plant_3''" "id_text 3" "JNum 3" 1 ?v 1700000000000]
      quota nonempty
    by (simp only: str) simp
  with fresh hit none miss show ?thesis by simp
qed

theorem non_perenual_no_fetch_witness:
  "startsWith ''inat_47'' ''inat_'' \<and>
   fresh_cached (page_load\<lparr>plantCache := (\<lambda>k. if k = JStr ''inat_47''
        then Some (JObj [(''id'', JStr ''inat_47''), (''source'', JStr ''inaturalist'')]) else None)\<rparr>)
     ''plant_inat_47'' = None \<and>
   getPlantDetails (page_load\<lparr>plantCache := (\<lambda>k. if k = JStr ''inat_47''
        then Some (JObj [(''id'', JStr ''inat_47''), (''source'', JStr ''inaturalist'')]) else None)\<rparr>)
     (JStr ''inat_47'') 1 =
     (Inr (JObj [(''id'', JStr ''inat_47''), (''source'', JStr ''inaturalist'')]),
      page_load\<lparr>plantCache := (\<lambda>k. if k = JStr ''inat_47''
        then Some (JObj [(''id'', JStr ''inat_47''), (''source'', JStr ''inaturalist'')]) else None)\<rparr>) \<and>
   getPlantDetails page_load (JStr ''inat_47'') 1 =
     (Inl (Error (non_perenual_message (JStr ''inat_47''))), page_load)"
  using
    non_perenual_no_fetch [of "''inat_47''"
      "page_load\<lparr>plantCache := (\<lambda>k. if k = JStr ''inat_47''
        then Some (JObj [(''id'', JStr ''inat_47''), (''source'', JStr ''inaturalist'')]) else None)\<rparr>" 1]
    non_perenual_no_fetch [of "''inat_47''" page_load 1]
  by (simp add: page_load_def fresh_cached_def prod_eq_iff)

lemma wiki_rose: "getWikipediaUrl (JStr ''Rose'') = Inr (JStr ''https://en.wikipedia.org/wiki/Rose'')"
  by (simp add: getWikipediaUrl_def encodeURIComponent_def encode_char_def unreserved_def replace_ws_def
      space_width_plain space_width_space)

text \<open>
  Claim C2, evaluated. With \<open>retries = 2\<close> and a first reply of status 429, the
  rate-limit error thrown inside the \<open>try\<close> is caught by the loop's own \<open>catch\<close>:
  the call pauses, fetches a second time (at the end of the cooldown) and returns the
  record of the second reply.
\<close>

theorem rate_limited_attempt_is_retried:
  "map fst (fetch_log (snd (getPlantDetails rate_limited_once (JNum 1) 2))) =
     [1700000000000, 1700000002000] \<and>
   result_field (fst (getPlantDetails rate_limited_once (JNum 1) 2)) ''common_name'' =
     Inr (JStr ''Rose'')"
  by (simp add: rate_limited_once_def page_load_def getPlantDetails_def fresh_cached_def
      isNonPerenual_def attempt_loop.simps attempt_try_def fetch_def sleep_def
      API_COOLDOWN_MS_def response_ok_def parse_details_def formatPlantData_def bindE_def
      js_opt_get_def js_or_def opt_join_def wiki_rose result_field_def Let_def)

section \<open>Rate limiting and the stale cache\<close>

lemma rate_limit_message: "is_rate_limit (Error RATE_LIMIT_MESSAGE)"
  by (simp add: is_rate_limit_def RATE_LIMIT_MESSAGE_def)

lemma attempt_try_429:
  assumes "snd (network w (details_url w p) (length (fetch_log w))) = Response 429 body"
  shows "fst (attempt_try w p k r a) = Inl (Error RATE_LIMIT_MESSAGE)"
    and "localStorage (snd (attempt_try w p k r a)) = localStorage w"
    and "JSON_parse (snd (attempt_try w p k r a)) = JSON_parse w"
  using assms
  by (auto simp: attempt_try_def fetch_def sleep_def Let_def response_ok_def split: prod.splits)

lemma attempt_loop_429:
  assumes "snd (network w (details_url w p) (length (fetch_log w))) = Response 429 body"
  shows "\<exists>w'. attempt_loop w p k 1 1 = (Inl (Error RATE_LIMIT_MESSAGE), w') \<and>
           localStorage w' = localStorage w \<and> JSON_parse w' = JSON_parse w"
proof -
  obtain out w' where at: "attempt_try w p k 1 1 = (out, w')"
    by (cases "attempt_try w p k 1 1")
  have out: "out = Inl (Error RATE_LIMIT_MESSAGE)"
    and ls: "localStorage w' = localStorage w" and jp: "JSON_parse w' = JSON_parse w"
    using attempt_try_429 [OF assms, of k 1 1] at by simp_all
  have "attempt_loop w p k 1 1 = (Inl (Error RATE_LIMIT_MESSAGE), w')"
    by (subst attempt_loop.simps) (simp add: at out)
  with ls jp show ?thesis by simp
qed

lemma getPlantDetails_429:
  assumes "fresh_cached w (''plant_'' @ js_toString p) = None" "\<not> isNonPerenual p"
    "snd (network w (details_url w p) (length (fetch_log w))) = Response 429 body"
  shows "fst (getPlantDetails w p 1) = Inl (Error RATE_LIMIT_MESSAGE)"
    and "localStorage (snd (getPlantDetails w p 1)) = localStorage w"
    and "JSON_parse (snd (getPlantDetails w p 1)) = JSON_parse w"
  using attempt_loop_429 [OF assms(3), of "''plant_'' @ js_toString p"] assms(1,2)
  by (auto simp: getPlantDetails_def Let_def)

lemma first_cached_cong:
  "localStorage w' = localStorage w \<Longrightarrow> JSON_parse w' = JSON_parse w \<Longrightarrow>
   first_cached w' ids = first_cached w ids"
  by (induction ids) (simp_all split: option.splits)

lemma first_cached_append:
  "first_cached w (xs @ ys) =
     (case first_cached w xs of Some p \<Rightarrow> Some p | None \<Rightarrow> first_cached w ys)"
  by (induction xs) (simp_all split: option.splits)

lemma getRandomPlant_fallback:
  assumes "\<forall>pid \<in> set CURATED_PLANT_IDS. fresh_cached w (''plant_'' @ show_int pid) = None"
    "r < length CURATED_PLANT_IDS"
    "snd (network w (details_url w (JNum (CURATED_PLANT_IDS ! r))) (length (fetch_log w))) =
       Response 429 body"
  shows "fst (getPlantDetails w (JNum (CURATED_PLANT_IDS ! r)) 1) = Inl (Error RATE_LIMIT_MESSAGE)"
    and "fst (getRandomPlant w r) =
           (case first_cached w CURATED_PLANT_IDS of
              Some plantData \<Rightarrow> Inr plantData
            | None \<Rightarrow> Inl (Error NO_CACHED_PLANTS_MESSAGE))"
proof -
  let ?p = "JNum (CURATED_PLANT_IDS ! r)"
  have none: "filter (\<lambda>id. fresh_cached w (''plant_'' @ show_int id) \<noteq> None) CURATED_PLANT_IDS = []"
    using assms(1) by (simp add: filter_empty_conv)
  have fresh: "fresh_cached w (''plant_'' @ js_toString ?p) = None"
    using assms(1,2) by simp
  have np: "\<not> isNonPerenual ?p" by (simp add: isNonPerenual_def)
  note d = getPlantDetails_429 [OF fresh np assms(3)]
  show "fst (getPlantDetails w ?p 1) = Inl (Error RATE_LIMIT_MESSAGE)" by (rule d(1))
  obtain res w' where g: "getPlantDetails w ?p 1 = (res, w')"
    by (cases "getPlantDetails w ?p 1")
  have res: "res = Inl (Error RATE_LIMIT_MESSAGE)" using d(1) g by simp
  have fc: "first_cached w' CURATED_PLANT_IDS = first_cached w CURATED_PLANT_IDS"
    using d(2,3) g by (intro first_cached_cong) simp_all
  show "fst (getRandomPlant w r) =
           (case first_cached w CURATED_PLANT_IDS of
              Some plantData \<Rightarrow> Inr plantData
            | None \<Rightarrow> Inl (Error NO_CACHED_PLANTS_MESSAGE))"
    unfolding getRandomPlant_def none
    using assms(2) by (simp add: Let_def g res rate_limit_message fc split: option.splits)
qed

lemma first_cached_at:
  assumes "r < length ids" "first_cached w (take r ids) = None"
    "localStorage w (''plant_'' @ show_int (ids ! r)) = Some c" "c \<noteq> []" "JSON_parse w c = Some p"
  shows "first_cached w ids = Some p"
proof -
  have "ids = take r ids @ ids ! r # drop (Suc r) ids"
    using assms(1) by (rule id_take_nth_drop)
  then have "first_cached w ids = first_cached w (take r ids @ ids ! r # drop (Suc r) ids)"
    by simp
  also have "\<dots> = Some p"
    using assms(2-5) by (simp add: first_cached_append)
  finally show ?thesis .
qed


text \<open>
  Claim C1, as the code has it. A call of \<open>getPlantDetails\<close> that is rate limited on
  its only attempt propagates the error, whatever the cache holds. The fallback is in the
  caller \<open>getRandomPlant\<close>: when no curated id has a fresh entry and the fetch for the
  drawn id is answered with status 429, it returns the parsed entry of the first curated
  id that has a non-empty entry that parses, whatever its age, and throws when there is
  none. That is the entry of the drawn id when no earlier curated id has one.
\<close>

theorem getRandomPlant_rate_limit_fallback:
  "(\<forall>pid \<in> set CURATED_PLANT_IDS. fresh_cached w (''plant_'' @ show_int pid) = None) \<and>
   r < length CURATED_PLANT_IDS \<and>
   snd (network w (details_url w (JNum (CURATED_PLANT_IDS ! r))) (length (fetch_log w))) =
     Response 429 body \<longrightarrow>
   fst (getPlantDetails w (JNum (CURATED_PLANT_IDS ! r)) 1) = Inl (Error RATE_LIMIT_MESSAGE) \<and>
   fst (getRandomPlant w r) =
     (case first_cached w CURATED_PLANT_IDS of
        Some plantData \<Rightarrow> Inr plantData
      | None \<Rightarrow> Inl (Error NO_CACHED_PLANTS_MESSAGE)) \<and>
   (first_cached w (take r CURATED_PLANT_IDS) = None \<and>
    localStorage w (''plant_'' @ show_int (CURATED_PLANT_IDS ! r)) = Some c \<and> c \<noteq> [] \<and>
    JSON_parse w c = Some p \<longrightarrow>
    fst (getRandomPlant w r) = Inr p)"
proof (intro impI, elim conjE)
  assume h: "\<forall>pid \<in> set CURATED_PLANT_IDS. fresh_cached w (''plant_'' @ show_int pid) = None"
    "r < length CURATED_PLANT_IDS"
    "snd (network w (details_url w (JNum (CURATED_PLANT_IDS ! r))) (length (fetch_log w))) =
       Response 429 body"
  note f = getRandomPlant_fallback [OF h]
  have "first_cached w (take r CURATED_PLANT_IDS) = None \<and>
    localStorage w (''plant_'' @ show_int (CURATED_PLANT_IDS ! r)) = Some c \<and> c \<noteq> [] \<and>
    JSON_parse w c = Some p \<longrightarrow> fst (getRandomPlant w r) = Inr p"
    using first_cached_at [OF h(2), of w c p] f(2) by simp
  with f show "fst (getPlantDetails w (JNum (CURATED_PLANT_IDS ! r)) 1) = Inl (Error RATE_LIMIT_MESSAGE) \<and>
   fst (getRandomPlant w r) =
     (case first_cached w CURATED_PLANT_IDS of
        Some plantData \<Rightarrow> Inr plantData
      | None \<Rightarrow> Inl (Error NO_CACHED_PLANTS_MESSAGE)) \<and>
   (first_cached w (take r CURATED_PLANT_IDS) = None \<and>
    localStorage w (''plant_'' @ show_int (CURATED_PLANT_IDS ! r)) = Some c \<and> c \<noteq> [] \<and>
    JSON_parse w c = Some p \<longrightarrow>
    fst (getRandomPlant w r) = Inr p)"
    by blast
qed

lemma parse_id_text_1: "parse_id_text (id_text 1) = Some (JObj [(''id'', JNum 1)])"
  by (simp add: parse_id_text_def id_text_def quoted_def show_int_digit digit_char_def
      parseInt_def parse_digits_def digits_value_def digit_of_def space_width_plain)

lemma parse_id_text_5: "parse_id_text (id_text 5) = Some (JObj [(''id'', JNum 5)])"
  by (simp add: parse_id_text_def id_text_def quoted_def show_int_digit digit_char_def
      parseInt_def parse_digits_def digits_value_def digit_of_def space_width_plain)

lemma stale_5_no_fresh: "fresh_cached stale_5 k = None"
  by (simp add: fresh_cached_def stale_5_def page_load_def parseInt_show_int split: option.splits)

lemma stale_1_5_no_fresh: "fresh_cached stale_1_5 k = None"
  by (simp add: fresh_cached_def stale_1_5_def page_load_def parseInt_show_int split: option.splits)

lemma curated_5: "4 < length CURATED_PLANT_IDS" "CURATED_PLANT_IDS ! 4 = 5"
  "take 4 CURATED_PLANT_IDS = [1, 2, 3, 4]"
  by (simp_all add: CURATED_PLANT_IDS_def)

lemma show_int_small: "show_int 1 = ''1''" "show_int 2 = ''2''" "show_int 3 = ''3''"
  "show_int 4 = ''4''" "show_int 5 = ''5''"
  by (simp_all add: show_int_digit digit_char_def)

lemma stale_5_fields:
  "localStorage stale_5 ''plant_5'' = Some (id_text 5)"
  "localStorage stale_5 ''plant_1'' = None" "localStorage stale_5 ''plant_2'' = None"
  "localStorage stale_5 ''plant_3'' = None" "localStorage stale_5 ''plant_4'' = None"
  "JSON_parse stale_5 = parse_id_text"
  "network stale_5 url n = (100, Response 429 None)"
  by (simp_all add: stale_5_def page_load_def)

lemma id_text_nonempty: "id_text n \<noteq> []"
  by (simp add: id_text_def)

theorem getRandomPlant_rate_limit_fallback_witness:
  "fresh_cached stale_5 ''plant_5'' = None \<and>
   localStorage stale_5 ''plant_5'' = Some (id_text 5) \<and>
   fst (getPlantDetails stale_5 (JNum 5) 1) = Inl (Error RATE_LIMIT_MESSAGE) \<and>
   fst (getRandomPlant stale_5 4) = Inr (JObj [(''id'', JNum 5)])"
proof -
  have hyp: "(\<forall>pid \<in> set CURATED_PLANT_IDS. fresh_cached stale_5 (''plant_'' @ show_int pid) = None) \<and>
      4 < length CURATED_PLANT_IDS \<and>
      snd (network stale_5 (details_url stale_5 (JNum (CURATED_PLANT_IDS ! 4))) (length (fetch_log stale_5))) =
        Response 429 None"
    by (simp add: stale_5_no_fresh curated_5 stale_5_fields)
  have entry: "first_cached stale_5 (take 4 CURATED_PLANT_IDS) = None \<and>
      localStorage stale_5 (''plant_'' @ show_int (CURATED_PLANT_IDS ! 4)) = Some (id_text 5) \<and>
      id_text 5 \<noteq> [] \<and> JSON_parse stale_5 (id_text 5) = Some (JObj [(''id'', JNum 5)])"
    by (simp add: curated_5 show_int_small stale_5_fields parse_id_text_5 id_text_nonempty)
  from getRandomPlant_rate_limit_fallback [of stale_5 4 None "id_text 5" "JObj [(''id'', JNum 5)]"]
    hyp entry
  have "fst (getPlantDetails stale_5 (JNum (CURATED_PLANT_IDS ! 4)) 1) = Inl (Error RATE_LIMIT_MESSAGE)"
    and "fst (getRandomPlant stale_5 4) = Inr (JObj [(''id'', JNum 5)])"
    by blast+
  then show ?thesis
    by (simp add: curated_5 stale_5_no_fresh stale_5_fields)
qed

text \<open>
  The claim as stated fails: with an expired entry stored for the requested id,
  \<open>getPlantDetails\<close> still throws the rate-limit error; and the fallback of
  \<open>getRandomPlant\<close>, asked for plant 5 while plants 1 and 5 both have expired entries,
  returns the entry of plant 1.
\<close>

theorem stale_entry_counterexample:
  "localStorage stale_5 ''plant_5'' = Some (id_text 5) \<and>
   localStorage stale_5 ''plant_5_time'' = Some (show_int 0) \<and>
   fst (getPlantDetails stale_5 (JNum 5) 1) = Inl (Error RATE_LIMIT_MESSAGE) \<and>
   CURATED_PLANT_IDS ! 4 = 5 \<and>
   fst (getRandomPlant stale_1_5 4) = Inr (JObj [(''id'', JNum 1)])"
proof -
  have a: "fst (getPlantDetails stale_5 (JNum 5) 1) = Inl (Error RATE_LIMIT_MESSAGE)"
    using getPlantDetails_429 (1) [of stale_5 "JNum 5" None]
    by (simp add: stale_5_no_fresh isNonPerenual_def stale_5_fields)
  have net: "network stale_1_5 url n = (100, Response 429 None)" for url n
    by (simp add: stale_1_5_def page_load_def)
  have "first_cached stale_1_5 CURATED_PLANT_IDS = Some (JObj [(''id'', JNum 1)])"
    by (simp add: CURATED_PLANT_IDS_def show_int_small stale_1_5_def page_load_def
        parse_id_text_1 id_text_nonempty)
  then have b: "fst (getRandomPlant stale_1_5 4) = Inr (JObj [(''id'', JNum 1)])"
    using getRandomPlant_fallback (2) [of stale_1_5 4 None]
    by (simp add: stale_1_5_no_fresh curated_5 net)
  show ?thesis using a b by (simp add: stale_5_def page_load_def curated_5)
qed

section \<open>The cooldown\<close>

lemma spaced_snoc:
  "spaced ts \<Longrightarrow> \<forall>t \<in> set ts. t + API_COOLDOWN_MS \<le> u \<Longrightarrow> spaced (ts @ [u])"
  by (induction ts rule: spaced.induct) auto

lemma call_time_ge: "lastApiCallTime w + API_COOLDOWN_MS \<le> call_time w"
  by (simp add: call_time_def)

lemma details_inv_attempt:
  assumes "details_inv w" "attempt_try w p k r a = (out, w')"
  shows "details_inv w'"
proof -
  note f = attempt_tryD [OF assms(2)]
  have cd: "0 \<le> API_COOLDOWN_MS" by (simp add: API_COOLDOWN_MS_def)
  have "\<forall>t \<in> set (map fst (fetch_log w)). t + API_COOLDOWN_MS \<le> call_time w"
    using assms(1) call_time_ge [of w] by (fastforce simp: details_inv_def)
  moreover have "\<forall>t \<in> set (map fst (fetch_log w)). t \<le> call_time w"
    using assms(1) call_time_ge [of w] cd by (fastforce simp: details_inv_def)
  ultimately show ?thesis
    using assms(1) by (simp add: details_inv_def f(1,2) spaced_snoc)
qed

lemma details_inv_sleep: "details_inv (sleep ms w) = details_inv w"
  by (simp add: details_inv_def)

lemma details_inv_loop:
  "details_inv w \<Longrightarrow> details_inv (snd (attempt_loop w p k r a))"
proof (induction w p k r a rule: attempt_loop.induct)
  case (1 w p k r a)
  show ?case
  proof (cases "a \<le> r")
    case False
    then show ?thesis using "1.prems" by (subst attempt_loop.simps) simp
  next
    case True
    obtain out w' where at: "attempt_try w p k r a = (out, w')"
      by (cases "attempt_try w p k r a")
    have inv': "details_inv w'" using details_inv_attempt [OF "1.prems" at] .
    have c: "out = Inr Continued \<Longrightarrow> details_inv (snd (attempt_loop w' p k r (a + 1)))"
      using "1.IH"(2) [OF True at [symmetric] _ refl] inv' by simp
    have e: "\<And>e. out = Inl e \<Longrightarrow> a \<noteq> r \<Longrightarrow>
        details_inv (snd (attempt_loop (sleep 500 w') p k r (a + 1)))"
      using "1.IH"(1) [OF True at [symmetric]] inv' by (simp add: details_inv_sleep)
    show ?thesis
      using True at inv' c e
      by (subst attempt_loop.simps) (auto split: sum.splits attempt_end.splits)
  qed
qed

lemma details_inv_getPlantDetails:
  "details_inv w \<Longrightarrow> details_inv (snd (getPlantDetails w plantId retries))"
  using details_inv_loop [of w plantId "''plant_'' @ js_toString plantId" retries 1]
  by (simp add: getPlantDetails_def Let_def split: option.splits)

lemma details_inv_run: "details_inv w \<Longrightarrow> details_inv (run_details w calls)"
proof (induction calls arbitrary: w)
  case Nil
  then show ?case by simp
next
  case (Cons c calls)
  obtain idle plantId retries where c: "c = (idle, plantId, retries)" by (cases c)
  have "details_inv (snd (getPlantDetails (sleep (int idle) w) plantId retries))"
    using Cons.prems by (intro details_inv_getPlantDetails) (simp add: details_inv_sleep)
  then show ?case using Cons.IH by (simp add: c)
qed

text \<open>
  Claim C3, as the code has it. There is one \<open>lastApiCallTime\<close>, read and written by
  \<open>getPlantDetails\<close> only. From a state where nothing has been fetched, through any
  sequence of calls of \<open>getPlantDetails\<close> made one after the other, with any ids,
  attempt counts, replies and idle times, every fetch is issued at least
  \<open>API_COOLDOWN_MS\<close> = 2000 ms after the one before.
\<close>

theorem getPlantDetails_cooldown:
  "API_COOLDOWN_MS = 2000 \<and>
   (fetch_log w = [] \<longrightarrow> spaced (map fst (fetch_log (run_details w calls))))"
proof -
  have "fetch_log w = [] \<longrightarrow> details_inv w" by (simp add: details_inv_def)
  then show ?thesis
    using details_inv_run [of w calls] by (auto simp: details_inv_def API_COOLDOWN_MS_def)
qed

theorem getPlantDetails_cooldown_witness:
  "fetch_log page_load = [] \<and>
   map fst (fetch_log (run_details page_load [(0, JNum 1, 2), (300, JNum 2, 1)])) =
     [1700000000000, 1700000002000, 1700000004000] \<and>
   spaced (map fst (fetch_log (run_details page_load [(0, JNum 1, 2), (300, JNum 2, 1)])))"
proof -
  have empty: "fetch_log page_load = []" by (simp add: page_load_def)
  have times: "map fst (fetch_log (run_details page_load [(0, JNum 1, 2), (300, JNum 2, 1)])) =
     [1700000000000, 1700000002000, 1700000004000]"
    by (simp add: page_load_def getPlantDetails_def fresh_cached_def isNonPerenual_def
      attempt_loop.simps attempt_try_def fetch_def sleep_def API_COOLDOWN_MS_def Let_def)
  from getPlantDetails_cooldown [of page_load "[(0, JNum 1, 2), (300, JNum 2, 1)]"] empty
  have "spaced (map fst (fetch_log (run_details page_load [(0, JNum 1, 2), (300, JNum 2, 1)])))"
    by blast
  with empty times show ?thesis by blast
qed

text \<open>
  The claim as stated fails: \<open>getPlantList\<close> keeps no timestamp and does not wait. Two
  calls in a row fetch from Perenual 100 ms apart, and \<open>lastApiCallTime\<close> is still 0.
\<close>

theorem cooldown_counterexample:
  "fetch_log (snd (getPlantList (snd (getPlantList answering 1 (JObj []))) 1 (JObj []))) =
     [(1700000000000, ''https://perenual.com/api/v2/species-list?key=KEY&page=1&per_page=10''),
      (1700000000100, ''https://perenual.com/api/v2/species-list?key=KEY&page=1&per_page=10'')] \<and>
   lastApiCallTime (snd (getPlantList (snd (getPlantList answering 1 (JObj []))) 1 (JObj []))) = 0"
  by (simp add: answering_def page_load_def getPlantList_def plant_list_response_def
      plant_list_url_def bindE_def
      js_opt_get_def flag_param_def value_param_def fetch_def response_ok_def API_BASE_URL_def
      show_int_small Let_def)

section \<open>Searching several sources\<close>

lemma fetch_fields [simp]:
  "fst (fetch url w) = snd (network w url (length (fetch_log w)))"
  "fetch_log (snd (fetch url w)) = fetch_log w @ [(clock w, url)]"
  "API_SOURCES (snd (fetch url w)) = API_SOURCES w"
  "network (snd (fetch url w)) = network w"
  "PERENUAL_API_KEY (snd (fetch url w)) = PERENUAL_API_KEY w"
  "lastApiCallTime (snd (fetch url w)) = lastApiCallTime w"
  "localStorage (snd (fetch url w)) = localStorage w"
  by (simp_all add: fetch_def split: prod.splits)

lemma search_url_eq:
  "plant_list_url w 1 (JObj [(''search'', JStr q)]) = Inr (search_url w q)"
  by (simp add: plant_list_url_def search_url_def bindE_def js_opt_get_def flag_param_def
      value_param_def show_int_small Let_def)

lemma getPlantList_search:
  "getPlantList w 1 (JObj [(''search'', JStr q)]) =
     (plant_list_response (snd (network w (search_url w q) (length (fetch_log w)))),
      snd (fetch (search_url w q) w))"
  by (simp add: getPlantList_def search_url_eq case_prod_beta)

lemma searchINaturalist_on:
  "inaturalist_enabled (API_SOURCES w) \<Longrightarrow>
   searchINaturalist w q p t pp =
     (inat_response (snd (network w (inat_url q p t pp) (length (fetch_log w)))),
      snd (fetch (inat_url q p t pp) w))"
  by (simp add: searchINaturalist_def case_prod_beta)

lemma getToxicShrooms_on:
  "toxicshrooms_enabled (API_SOURCES w) \<Longrightarrow>
   getToxicShrooms w ty =
     (toxic_response (snd (network w (toxic_url ty) (length (fetch_log w)))),
      snd (fetch (toxic_url ty) w))"
  by (simp add: getToxicShrooms_def case_prod_beta)

lemma perenual_then_fields [simp]:
  "inaturalist (perenual_then x r) = inaturalist r"
  "toxicshrooms (perenual_then x r) = toxicshrooms r"
  by (simp_all add: perenual_then_def split: sum.splits prod.splits)

lemma inat_then_fields [simp]:
  "perenual (inat_then d r) = perenual r"
  "toxicshrooms (inat_then d r) = toxicshrooms r"
  by (simp_all add: inat_then_def split: sum.splits)

lemma toxic_then_fields [simp]:
  "perenual (toxic_then w q d r) = perenual r"
  "inaturalist (toxic_then w q d r) = inaturalist r"
  by (simp_all add: toxic_then_def split: sum.splits)

lemma no_results_fields [simp]:
  "perenual no_results = JArr []" "inaturalist no_results = JArr []"
  "toxicshrooms no_results = JArr []"
  by (simp_all add: no_results_def)

lemma multiSourceSearch_unfold:
  "multiSourceSearch w q opts =
     (let t0 = clock w;
          r1 = (if searches_perenual w opts
                then perenual_then (plant_list_response (perenual_reply w q opts)) no_results
                else no_results);
          w1 = (if searches_perenual w opts then snd (fetch (search_url w q) w) else w);
          w1' = w1\<lparr>clock := t0\<rparr>;
          r2 = (if searches_inaturalist w opts
                then inat_then (inat_response (inaturalist_reply w q opts)) r1 else r1);
          w2 = (if searches_inaturalist w opts
                then snd (fetch (inat_url q 1 (if includeFungi opts then Some 47170 else None) 30) w1')
                else w1');
          w2' = w2\<lparr>clock := t0\<rparr>;
          r3 = (if searches_toxicshrooms w opts
                then toxic_then w q (toxic_response (toxicshrooms_reply w q opts)) r2 else r2);
          w3 = (if searches_toxicshrooms w opts then snd (fetch (toxic_url None) w2') else w2')
      in (r3, w3\<lparr>clock := max (clock w1) (max (clock w2) (clock w3))\<rparr>))"
proof -
  have m: "multiSourceSearch w q opts =
     (let t0 = clock w;
          (results1, w1) =
            (if searches_perenual w opts then
               (let (res, w') = getPlantList w 1 (JObj [(''search'', JStr q)])
                in (perenual_then res no_results, w'))
             else (no_results, w));
          (results2, w2) =
            (if searches_inaturalist w opts then
               (let (data, w') = searchINaturalist (w1\<lparr>clock := t0\<rparr>) q 1
                                   (if includeFungi opts then Some 47170 else None) 30
                in (inat_then data results1, w'))
             else (results1, w1\<lparr>clock := t0\<rparr>));
          (results3, w3) =
            (if searches_toxicshrooms w opts then
               (let (data, w') = getToxicShrooms (w2\<lparr>clock := t0\<rparr>) None
                in (toxic_then w q data results2, w'))
             else (results2, w2\<lparr>clock := t0\<rparr>))
      in (results3, w3\<lparr>clock := max (clock w1) (max (clock w2) (clock w3))\<rparr>))"
    unfolding multiSourceSearch_def searches_perenual_def searches_inaturalist_def
      searches_toxicshrooms_def ..
  have i: "searches_inaturalist w opts \<Longrightarrow> inaturalist_enabled (API_SOURCES w)"
    and t: "searches_toxicshrooms w opts \<Longrightarrow> toxicshrooms_enabled (API_SOURCES w)"
    by (simp_all add: searches_inaturalist_def searches_toxicshrooms_def)
  show ?thesis
    unfolding m
    by (cases "searches_perenual w opts"; cases "searches_inaturalist w opts";
        cases "searches_toxicshrooms w opts")
       (simp_all add: Let_def getPlantList_search searchINaturalist_on getToxicShrooms_on i t
          perenual_reply_def inaturalist_reply_def toxicshrooms_reply_def)
qed

lemma handlers_commute [simp]:
  "inaturalist (inat_then d (perenual_then x r)) = inaturalist (inat_then d r)"
  "toxicshrooms (toxic_then w q d (perenual_then x r)) = toxicshrooms (toxic_then w q d r)"
  "toxicshrooms (toxic_then w q d (inat_then e r)) = toxicshrooms (toxic_then w q d r)"
  by (simp_all add: inat_then_def toxic_then_def perenual_then_def split: sum.splits prod.splits)

lemma multiSourceSearch_fields:
  "perenual (fst (multiSourceSearch w q opts)) =
     (if searches_perenual w opts
      then perenual (perenual_then (plant_list_response (perenual_reply w q opts)) no_results)
      else JArr [])"
  "inaturalist (fst (multiSourceSearch w q opts)) =
     (if searches_inaturalist w opts
      then inaturalist (inat_then (inat_response (inaturalist_reply w q opts)) no_results)
      else JArr [])"
  "toxicshrooms (fst (multiSourceSearch w q opts)) =
     (if searches_toxicshrooms w opts
      then toxicshrooms (toxic_then w q (toxic_response (toxicshrooms_reply w q opts)) no_results)
      else JArr [])"
  by (simp_all add: multiSourceSearch_unfold Let_def)

lemma multiSourceSearch_log:
  "fetch_log (snd (multiSourceSearch w q opts)) =
     fetch_log w @
     (if includePerenual opts \<and> perenual_enabled (API_SOURCES w)
      then [(clock w, search_url w q)] else []) @
     (if includeINaturalist opts \<and> inaturalist_enabled (API_SOURCES w)
      then [(clock w, inat_url q 1 (if includeFungi opts then Some 47170 else None) 30)] else []) @
     (if includeFungi opts \<and> toxicshrooms_enabled (API_SOURCES w)
      then [(clock w, toxic_url None)] else [])"
  unfolding searches_perenual_def [symmetric] searches_inaturalist_def [symmetric]
    searches_toxicshrooms_def [symmetric]
  by (simp add: multiSourceSearch_unfold Let_def)

lemma failed_replies:
  "reply_fails r \<Longrightarrow> perenual (perenual_then (plant_list_response r) no_results) = JArr []"
  "reply_fails r \<Longrightarrow> inaturalist (inat_then (inat_response r) no_results) = JArr []"
  "reply_fails r \<Longrightarrow> toxicshrooms (toxic_then w q (toxic_response r) no_results) = JArr []"
  by (auto simp: reply_fails_def plant_list_response_def perenual_then_def inat_response_def
      inat_then_def no_taxa_def toxic_response_def toxic_then_def bindE_def
      split: reply.splits)

lemma perenual_success:
  "response_ok status \<Longrightarrow> js_get data ''data'' = Inr (JArr items) \<Longrightarrow>
   perenual (perenual_then (plant_list_response (Response status (Some data))) no_results) = JArr items"
  by (simp add: plant_list_response_def perenual_then_def bindE_def js_or_def)

lemma inaturalist_success:
  "response_ok status \<Longrightarrow> js_get data ''results'' = Inr (JArr taxa) \<Longrightarrow>
   mapE formatINaturalistData taxa = Inr records \<Longrightarrow>
   inaturalist (inat_then (inat_response (Response status (Some data))) no_results) = JArr records"
  by (simp add: inat_response_def inat_then_def bindE_def js_or_def)

lemma toxicshrooms_success:
  "response_ok status \<Longrightarrow>
   (if q \<noteq> [] then filterE (shroom_matches w q) shrooms else Inr shrooms) = Inr kept \<Longrightarrow>
   mapE formatToxicShroomData kept = Inr records \<Longrightarrow>
   toxicshrooms (toxic_then w q (toxic_response (Response status (Some (JArr shrooms)))) no_results) =
     JArr records"
  by (cases "q = []") (simp_all add: toxic_response_def toxic_then_def bindE_def)

text \<open>
  Claim C6. \<open>multiSourceSearch\<close> returns its results on every path, and the list of
  each source is a function of the reply to that source's own fetch, whatever the other
  sources answer. A searched source whose fetch fails (rejected, not 2xx, not JSON)
  contributes the empty list. A searched source that answers contributes its list:
  Perenual's \<open>data\<close> array as it came, the formatted taxa of iNaturalist, the formatted
  mushrooms of Toxic Shrooms that match the query.
\<close>

theorem multiSourceSearch_isolation:
  "perenual (fst (multiSourceSearch w q opts)) =
     (if searches_perenual w opts
      then perenual (perenual_then (plant_list_response (perenual_reply w q opts)) no_results)
      else JArr []) \<and>
   inaturalist (fst (multiSourceSearch w q opts)) =
     (if searches_inaturalist w opts
      then inaturalist (inat_then (inat_response (inaturalist_reply w q opts)) no_results)
      else JArr []) \<and>
   toxicshrooms (fst (multiSourceSearch w q opts)) =
     (if searches_toxicshrooms w opts
      then toxicshrooms (toxic_then w q (toxic_response (toxicshrooms_reply w q opts)) no_results)
      else JArr []) \<and>
   (reply_fails (perenual_reply w q opts) \<longrightarrow>
      perenual (fst (multiSourceSearch w q opts)) = JArr []) \<and>
   (reply_fails (inaturalist_reply w q opts) \<longrightarrow>
      inaturalist (fst (multiSourceSearch w q opts)) = JArr []) \<and>
   (reply_fails (toxicshrooms_reply w q opts) \<longrightarrow>
      toxicshrooms (fst (multiSourceSearch w q opts)) = JArr []) \<and>
   (searches_perenual w opts \<and> perenual_reply w q opts = Response status (Some data) \<and>
    response_ok status \<and> js_get data ''data'' = Inr (JArr items) \<longrightarrow>
      perenual (fst (multiSourceSearch w q opts)) = JArr items) \<and>
   (searches_inaturalist w opts \<and> inaturalist_reply w q opts = Response status (Some data) \<and>
    response_ok status \<and> js_get data ''results'' = Inr (JArr taxa) \<and>
    mapE formatINaturalistData taxa = Inr records \<longrightarrow>
      inaturalist (fst (multiSourceSearch w q opts)) = JArr records) \<and>
   (searches_toxicshrooms w opts \<and>
    toxicshrooms_reply w q opts = Response status (Some (JArr shrooms)) \<and> response_ok status \<and>
    (if q \<noteq> [] then filterE (shroom_matches w q) shrooms else Inr shrooms) = Inr kept \<and>
    mapE formatToxicShroomData kept = Inr records \<longrightarrow>
      toxicshrooms (fst (multiSourceSearch w q opts)) = JArr records)"
  using failed_replies [of "perenual_reply w q opts"]
    failed_replies [of "inaturalist_reply w q opts"]
    failed_replies(3) [of "toxicshrooms_reply w q opts" w q]
    perenual_success [of status data items] inaturalist_success [of status data taxa records]
    toxicshrooms_success [of status q w shrooms kept records]
  by (simp add: multiSourceSearch_fields)

lemma wiki_fungi: "getWikipediaUrl (JStr ''Fungi'') = Inr (JStr ''https://en.wikipedia.org/wiki/Fungi'')"
  by (simp add: getWikipediaUrl_def encodeURIComponent_def encode_char_def unreserved_def replace_ws_def
      space_width_plain space_width_space)

lemma wiki_amanita:
  "getWikipediaUrl (JStr ''Amanita phalloides'') =
     Inr (JStr ''https://en.wikipedia.org/wiki/Amanita_phalloides'')"
  by (simp add: getWikipediaUrl_def encodeURIComponent_def encode_char_def unreserved_def replace_ws_def
      space_width_plain space_width_space)

lemma show_int_47170: "show_int 47170 = ''47170''"
  by (simp add: show_int_def digits.simps digit_char_def)

lemma format_fungi:
  "mapE formatINaturalistData [JObj [(''id'', JNum 47170), (''name'', JStr ''Fungi''), (''rank'', JStr ''kingdom'')]] =
     Inr [JObj
          [(''id'', JStr ''inat_47170''),
           (''source'', JStr ''inaturalist''),
           (''common_name'', JStr ''Fungi''),
           (''scientific_name'', JStr ''Fungi''), (''description'', JNull),
           (''image_url'', JStr ''MushroomApp.png''),
           (''rank'', JStr ''kingdom''),
           (''iconic_taxon_name'', JStr ''N/A''),
           (''observations_count'', JNum 0),
           (''wikipedia_url'', JStr ''https://en.wikipedia.org/wiki/Fungi''),
           (''is_active'', JBool False), (''endemic'', JBool False),
           (''threatened'', JBool False), (''introduced'', JBool False),
           (''native'', JBool False), (''taxon_id'', JNum 47170),
           (''kingdom'', JStr ''Fungi''), (''phylum'', JStr ''N/A''),
           (''class'', JStr ''N/A''), (''order'', JStr ''N/A''),
           (''family'', JStr ''N/A''), (''genus'', JStr ''N/A'')]]"
  by (simp add: formatINaturalistData_def inat_image_url_def inat_taxonomy_def assign_rank_def
      no_taxonomy_def bindE_def js_opt_get_def js_or_def wiki_fungi show_int_47170
      PLACEHOLDER_IMG_def Let_def)

lemma filter_amanita:
  "filterE (shroom_matches perenual_down ''amanita'') [JObj [(''name'', JStr ''Amanita phalloides''), (''type'', JStr ''deadly'')],
       JObj [(''name'', JStr ''Galerina marginata'')]] =
     Inr [JObj [(''name'', JStr ''Amanita phalloides''), (''type'', JStr ''deadly'')]]"
proof -
  have "toLowerCase perenual_down = ascii_lower" by (simp add: perenual_down_def page_load_def)
  then show ?thesis
    by (simp add: shroom_matches_def name_matches_def bindE_def ascii_lower_def)
qed

lemma format_amanita:
  "mapE formatToxicShroomData [JObj [(''name'', JStr ''Amanita phalloides''), (''type'', JStr ''deadly'')]] =
     Inr [JObj
          [(''id'', JStr ''toxic_Amanita_phalloides''),
           (''source'', JStr ''toxicshrooms''),
           (''common_name'', JStr ''Amanita phalloides''),
           (''scientific_name'', JStr ''Amanita phalloides''),
           (''description'', JStr ''Toxic agent: Unknown. Distribution: Unknown''),
           (''image_url'', JStr ''MushroomApp.png''),
           (''toxicity_type'', JStr ''deadly''),
           (''toxic_agent'', JStr ''Unknown toxins''),
           (''distribution'', JStr ''Unknown''),
           (''wikipedia_url'', JStr ''https://en.wikipedia.org/wiki/Amanita_phalloides'')]]"
  by (simp add: formatToxicShroomData_def toxic_image_url_def toxic_distribution_def bindE_def
      js_opt_get_def js_or_def wiki_amanita replace_ws_def space_width_plain space_width_space
      PLACEHOLDER_IMG_def Let_def)

lemma perenual_down_replies:
  "perenual_reply perenual_down ''amanita'' fungi_options = Rejected"
  "inaturalist_reply perenual_down ''amanita'' fungi_options =
     Response 200 (Some (JObj [(''results'', JArr [JObj [(''id'', JNum 47170), (''name'', JStr ''Fungi''), (''rank'', JStr ''kingdom'')]])]))"
  "toxicshrooms_reply perenual_down ''amanita'' fungi_options =
     Response 200 (Some (JArr [JObj [(''name'', JStr ''Amanita phalloides''), (''type'', JStr ''deadly'')],
       JObj [(''name'', JStr ''Galerina marginata'')]]))"
  "searches_perenual perenual_down fungi_options"
  "searches_inaturalist perenual_down fungi_options"
  "searches_toxicshrooms perenual_down fungi_options"
  by (simp_all add: perenual_reply_def inaturalist_reply_def toxicshrooms_reply_def
      searches_perenual_def searches_inaturalist_def searches_toxicshrooms_def
      perenual_down_def page_load_def fungi_options_def)

theorem multiSourceSearch_isolation_witness:
  "reply_fails (perenual_reply perenual_down ''amanita'' fungi_options) \<and>
   perenual (fst (multiSourceSearch perenual_down ''amanita'' fungi_options)) = JArr [] \<and>
   inaturalist (fst (multiSourceSearch perenual_down ''amanita'' fungi_options)) =
     JArr [JObj
          [(''id'', JStr ''inat_47170''),
           (''source'', JStr ''inaturalist''),
           (''common_name'', JStr ''Fungi''),
           (''scientific_name'', JStr ''Fungi''), (''description'', JNull),
           (''image_url'', JStr ''MushroomApp.png''),
           (''rank'', JStr ''kingdom''),
           (''iconic_taxon_name'', JStr ''N/A''),
           (''observations_count'', JNum 0),
           (''wikipedia_url'', JStr ''https://en.wikipedia.org/wiki/Fungi''),
           (''is_active'', JBool False), (''endemic'', JBool False),
           (''threatened'', JBool False), (''introduced'', JBool False),
           (''native'', JBool False), (''taxon_id'', JNum 47170),
           (''kingdom'', JStr ''Fungi''), (''phylum'', JStr ''N/A''),
           (''class'', JStr ''N/A''), (''order'', JStr ''N/A''),
           (''family'', JStr ''N/A''), (''genus'', JStr ''N/A'')]] \<and>
   toxicshrooms (fst (multiSourceSearch perenual_down ''amanita'' fungi_options)) =
     JArr [JObj
          [(''id'', JStr ''toxic_Amanita_phalloides''),
           (''source'', JStr ''toxicshrooms''),
           (''common_name'', JStr ''Amanita phalloides''),
           (''scientific_name'', JStr ''Amanita phalloides''),
           (''description'', JStr ''Toxic agent: Unknown. Distribution: Unknown''),
           (''image_url'', JStr ''MushroomApp.png''),
           (''toxicity_type'', JStr ''deadly''),
           (''toxic_agent'', JStr ''Unknown toxins''),
           (''distribution'', JStr ''Unknown''),
           (''wikipedia_url'', JStr ''https://en.wikipedia.org/wiki/Amanita_phalloides'')]]"
proof -
  note t = multiSourceSearch_isolation [of perenual_down "''amanita''" fungi_options 200
      "JObj [(''results'', JArr [JObj [(''id'', JNum 47170), (''name'', JStr ''Fungi''), (''rank'', JStr ''kingdom'')]])]"
      "[]" "[JObj [(''id'', JNum 47170), (''name'', JStr ''Fungi''), (''rank'', JStr ''kingdom'')]]"
      "[JObj
          [(''id'', JStr ''inat_47170''),
           (''source'', JStr ''inaturalist''),
           (''common_name'', JStr ''Fungi''),
           (''scientific_name'', JStr ''Fungi''), (''description'', JNull),
           (''image_url'', JStr ''MushroomApp.png''),
           (''rank'', JStr ''kingdom''),
           (''iconic_taxon_name'', JStr ''N/A''),
           (''observations_count'', JNum 0),
           (''wikipedia_url'', JStr ''https://en.wikipedia.org/wiki/Fungi''),
           (''is_active'', JBool False), (''endemic'', JBool False),
           (''threatened'', JBool False), (''introduced'', JBool False),
           (''native'', JBool False), (''taxon_id'', JNum 47170),
           (''kingdom'', JStr ''Fungi''), (''phylum'', JStr ''N/A''),
           (''class'', JStr ''N/A''), (''order'', JStr ''N/A''),
           (''family'', JStr ''N/A''), (''genus'', JStr ''N/A'')]]"
      "[JObj [(''name'', JStr ''Amanita phalloides''), (''type'', JStr ''deadly'')], JObj [(''name'', JStr ''Galerina marginata'')]]"
      "[JObj [(''name'', JStr ''Amanita phalloides''), (''type'', JStr ''deadly'')]]"]
  have fails: "reply_fails (perenual_reply perenual_down ''amanita'' fungi_options)"
    by (simp add: perenual_down_replies reply_fails_def)
  have ok: "response_ok 200" by (simp add: response_ok_def)
  have p: "perenual (fst (multiSourceSearch perenual_down ''amanita'' fungi_options)) = JArr []"
    using t fails by blast
  have i: "inaturalist (fst (multiSourceSearch perenual_down ''amanita'' fungi_options)) =
     JArr [JObj
          [(''id'', JStr ''inat_47170''),
           (''source'', JStr ''inaturalist''),
           (''common_name'', JStr ''Fungi''),
           (''scientific_name'', JStr ''Fungi''), (''description'', JNull),
           (''image_url'', JStr ''MushroomApp.png''),
           (''rank'', JStr ''kingdom''),
           (''iconic_taxon_name'', JStr ''N/A''),
           (''observations_count'', JNum 0),
           (''wikipedia_url'', JStr ''https://en.wikipedia.org/wiki/Fungi''),
           (''is_active'', JBool False), (''endemic'', JBool False),
           (''threatened'', JBool False), (''introduced'', JBool False),
           (''native'', JBool False), (''taxon_id'', JNum 47170),
           (''kingdom'', JStr ''Fungi''), (''phylum'', JStr ''N/A''),
           (''class'', JStr ''N/A''), (''order'', JStr ''N/A''),
           (''family'', JStr ''N/A''), (''genus'', JStr ''N/A'')]]"
    using t [THEN conjunct2, THEN conjunct2, THEN conjunct2, THEN conjunct2, THEN conjunct2,
        THEN conjunct2, THEN conjunct2, THEN conjunct1]
      ok format_fungi
    by (simp add: perenual_down_replies)
  have x: "toxicshrooms (fst (multiSourceSearch perenual_down ''amanita'' fungi_options)) =
     JArr [JObj
          [(''id'', JStr ''toxic_Amanita_phalloides''),
           (''source'', JStr ''toxicshrooms''),
           (''common_name'', JStr ''Amanita phalloides''),
           (''scientific_name'', JStr ''Amanita phalloides''),
           (''description'', JStr ''Toxic agent: Unknown. Distribution: Unknown''),
           (''image_url'', JStr ''MushroomApp.png''),
           (''toxicity_type'', JStr ''deadly''),
           (''toxic_agent'', JStr ''Unknown toxins''),
           (''distribution'', JStr ''Unknown''),
           (''wikipedia_url'', JStr ''https://en.wikipedia.org/wiki/Amanita_phalloides'')]]"
    using multiSourceSearch_isolation [of perenual_down "''amanita''" fungi_options 200
      "JObj []" "[]" "[]" "[JObj
          [(''id'', JStr ''toxic_Amanita_phalloides''),
           (''source'', JStr ''toxicshrooms''),
           (''common_name'', JStr ''Amanita phalloides''),
           (''scientific_name'', JStr ''Amanita phalloides''),
           (''description'', JStr ''Toxic agent: Unknown. Distribution: Unknown''),
           (''image_url'', JStr ''MushroomApp.png''),
           (''toxicity_type'', JStr ''deadly''),
           (''toxic_agent'', JStr ''Unknown toxins''),
           (''distribution'', JStr ''Unknown''),
           (''wikipedia_url'', JStr ''https://en.wikipedia.org/wiki/Amanita_phalloides'')]]" "[JObj [(''name'', JStr ''Amanita phalloides''), (''type'', JStr ''deadly'')], JObj [(''name'', JStr ''Galerina marginata'')]]"
      "[JObj [(''name'', JStr ''Amanita phalloides''), (''type'', JStr ''deadly'')]]",
      THEN conjunct2, THEN conjunct2, THEN conjunct2, THEN conjunct2, THEN conjunct2,
        THEN conjunct2, THEN conjunct2, THEN conjunct2]
      ok filter_amanita format_amanita
    by (simp add: perenual_down_replies)
  from fails p i x show ?thesis by blast
qed

text \<open>
  Claim C9, as the code has it. One search fetches exactly once from each source that the
  options include and the configuration enables, in the order Perenual, iNaturalist, Toxic
  Shrooms, all at the time of the call, and from no other: Perenual and iNaturalist are
  included by default, Toxic Shrooms only in fungi mode. A source that is disabled is not
  fetched from and contributes the empty list, and \<open>searchINaturalist\<close> and
  \<open>getToxicShrooms\<close> return their empty result without a fetch when their source is
  disabled.
\<close>

theorem multiSourceSearch_calls:
  "fetch_log (snd (multiSourceSearch w q opts)) =
     fetch_log w @
     (if includePerenual opts \<and> perenual_enabled (API_SOURCES w)
      then [(clock w, search_url w q)] else []) @
     (if includeINaturalist opts \<and> inaturalist_enabled (API_SOURCES w)
      then [(clock w, inat_url q 1 (if includeFungi opts then Some 47170 else None) 30)] else []) @
     (if includeFungi opts \<and> toxicshrooms_enabled (API_SOURCES w)
      then [(clock w, toxic_url None)] else []) \<and>
   (\<not> perenual_enabled (API_SOURCES w) \<longrightarrow>
      perenual (fst (multiSourceSearch w q opts)) = JArr []) \<and>
   (\<not> inaturalist_enabled (API_SOURCES w) \<longrightarrow>
      inaturalist (fst (multiSourceSearch w q opts)) = JArr [] \<and>
      searchINaturalist w q page taxonId perPage = (no_taxa, w)) \<and>
   (\<not> toxicshrooms_enabled (API_SOURCES w) \<longrightarrow>
      toxicshrooms (fst (multiSourceSearch w q opts)) = JArr [] \<and>
      getToxicShrooms w type = (JArr [], w))"
  by (simp add: multiSourceSearch_log multiSourceSearch_fields searches_perenual_def
      searches_inaturalist_def searches_toxicshrooms_def searchINaturalist_def getToxicShrooms_def)

lemma rose_urls:
  "search_url answering ''rose'' =
     ''https://perenual.com/api/v2/species-list?key=KEY&page=1&per_page=10&q=rose''"
  "search_url inaturalist_off ''rose'' =
     ''https://perenual.com/api/v2/species-list?key=KEY&page=1&per_page=10&q=rose''"
  "inat_url ''rose'' 1 None 30 =
     ''https://api.inaturalist.org/v1/taxa?q=rose&page=1&per_page=30&order_by=observations_count&order=desc''"
  by (simp_all add: search_url_def inat_url_def answering_def inaturalist_off_def page_load_def
      API_BASE_URL_def encodeURIComponent_def encode_char_def unreserved_def show_int_small
      show_int_def digits.simps digit_char_def)

theorem multiSourceSearch_calls_witness:
  "\<not> inaturalist_enabled (API_SOURCES inaturalist_off) \<and>
   perenual_enabled (API_SOURCES inaturalist_off) \<and>
   fetch_log (snd (multiSourceSearch inaturalist_off ''rose'' default_options)) =
     [(1700000000000, ''https://perenual.com/api/v2/species-list?key=KEY&page=1&per_page=10&q=rose'')] \<and>
   inaturalist (fst (multiSourceSearch inaturalist_off ''rose'' default_options)) = JArr [] \<and>
   searchINaturalist inaturalist_off ''rose'' 1 None 30 = (no_taxa, inaturalist_off)"
  using multiSourceSearch_calls [of inaturalist_off "''rose''" default_options 1 None 30 None]
  by (simp add: rose_urls)
     (simp add: inaturalist_off_def answering_def page_load_def default_options_def)

text \<open>
  The claim as stated fails: with the default options Toxic Shrooms, although enabled,
  receives no call.
\<close>

theorem enabled_source_counterexample:
  "toxicshrooms_enabled (API_SOURCES answering) \<and>
   fetch_log (snd (multiSourceSearch answering ''rose'' default_options)) =
     [(1700000000000, ''https://perenual.com/api/v2/species-list?key=KEY&page=1&per_page=10&q=rose''),
      (1700000000000,
       ''https://api.inaturalist.org/v1/taxa?q=rose&page=1&per_page=30&order_by=observations_count&order=desc'')]"
  by (simp add: multiSourceSearch_log rose_urls)
     (simp add: answering_def page_load_def default_options_def)

section \<open>Merging what a search returns\<close>

lemma fir_found_replies:
  "searches_perenual fir_found default_options"
  "searches_inaturalist fir_found default_options"
  "\<not> searches_toxicshrooms fir_found default_options"
  "perenual_reply fir_found ''fir'' default_options =
     Response 200 (Some (JObj [(''data'',
         JArr [JObj [(''id'', JNum 1), (''common_name'', JStr ''European Silver Fir''),
                     (''scientific_name'', JArr [JStr ''Abies alba''])]]),
       (''total'', JNum 1)]))"
  "inaturalist_reply fir_found ''fir'' default_options = Rejected"
  by (simp_all add: perenual_reply_def inaturalist_reply_def
      searches_perenual_def searches_inaturalist_def searches_toxicshrooms_def
      fir_found_def page_load_def default_options_def)

text \<open>
  Claim C5. The merge of the claim is what \<open>combineSearchResults\<close> does on records whose
  names are strings, but it does not get through the records of its first source. A search
  for \<open>fir\<close> that Perenual answers with its record 1 returns that record as it came,
  the scientific name an array, which is how \<open>formatPlantData\<close> and the result cards
  read the field. \<open>combineSearchResults\<close> applied to the result of this search throws
  a \<open>TypeError\<close>, an array having no \<open>toLowerCase\<close>, and no merged list is returned.
  The same record with the scientific name a string is appended with its source.
\<close>

theorem combineSearchResults_raw_perenual:
  "perenual (fst (multiSourceSearch fir_found ''fir'' default_options)) =
     JArr [JObj [(''id'', JNum 1), (''common_name'', JStr ''European Silver Fir''),
                 (''scientific_name'', JArr [JStr ''Abies alba''])]] \<and>
   inaturalist (fst (multiSourceSearch fir_found ''fir'' default_options)) = JArr [] \<and>
   toxicshrooms (fst (multiSourceSearch fir_found ''fir'' default_options)) = JArr [] \<and>
   combineSearchResults fir_found (fst (multiSourceSearch fir_found ''fir'' default_options)) =
     Inl TypeError \<and>
   combineSearchResults fir_found
     \<lparr>perenual = JArr [JObj [(''id'', JNum 1), (''common_name'', JStr ''European Silver Fir''),
                              (''scientific_name'', JStr ''Abies alba'')]],
      inaturalist = JArr [], toxicshrooms = JArr [], total = JNum 1\<rparr> =
     Inr [JObj [(''id'', JNum 1), (''common_name'', JStr ''European Silver Fir''),
                (''scientific_name'', JStr ''Abies alba''), (''source'', JStr ''perenual'')]]"
proof -
  let ?r = "fst (multiSourceSearch fir_found ''fir'' default_options)"
  have ok: "response_ok 200" by (simp add: response_ok_def)
  have p: "perenual ?r =
     JArr [JObj [(''id'', JNum 1), (''common_name'', JStr ''European Silver Fir''),
                 (''scientific_name'', JArr [JStr ''Abies alba''])]]"
    using perenual_success [OF ok, of _ "[JObj [(''id'', JNum 1), (''common_name'', JStr ''European Silver Fir''),
                 (''scientific_name'', JArr [JStr ''Abies alba''])]]"]
    by (simp add: multiSourceSearch_fields fir_found_replies)
  have i: "inaturalist ?r = JArr []"
    using failed_replies(2) [of Rejected]
    by (simp add: multiSourceSearch_fields fir_found_replies reply_fails_def)
  have t: "toxicshrooms ?r = JArr []"
    by (simp add: multiSourceSearch_fields fir_found_replies)
  have throws: "combineSearchResults fir_found ?r = Inl TypeError"
    by (simp add: combineSearchResults_def addResults_def p item_key_def lower_trim_def bindE_def)
  have lower: "toLowerCase fir_found = ascii_lower" by (simp add: fir_found_def page_load_def)
  have merged: "combineSearchResults fir_found
     \<lparr>perenual = JArr [JObj [(''id'', JNum 1), (''common_name'', JStr ''European Silver Fir''),
                              (''scientific_name'', JStr ''Abies alba'')]],
      inaturalist = JArr [], toxicshrooms = JArr [], total = JNum 1\<rparr> =
     Inr [JObj [(''id'', JNum 1), (''common_name'', JStr ''European Silver Fir''),
                (''scientific_name'', JStr ''Abies alba''), (''source'', JStr ''perenual'')]]"
    by (simp add: combineSearchResults_def addResults_def item_key_def lower_trim_def bindE_def
        lower ascii_lower_def trim_def space_width_plain space_width_space with_source_def)
  from p i t throws merged show ?thesis by blast
qed

end
